theory Spec2Isabelle
  imports Main "HOL-Library.Sublist"
begin

section \<open>JavaScript values used by the scheduling engine\<close>

text \<open>
  Arguments that the JavaScript code tests for presence (\<^verbatim>\<open>!phoneNumber\<close>,
  \<^verbatim>\<open>providedTimezone || ...\<close>) are strings that may be missing: \<open>Undefined\<close>,
  \<open>Null\<close>, or a string. Strings are lists of 8-bit characters.
\<close>

datatype jsval = Undefined | Null | Str string

fun truthy :: "jsval \<Rightarrow> bool" where
  "truthy Undefined = False"
| "truthy Null = False"
| "truthy (Str s) = (s \<noteq> [])"

definition js_or :: "jsval \<Rightarrow> jsval \<Rightarrow> jsval" where
  "js_or a b = (if truthy a then a else b)"

text \<open>
  An object literal is built entry by entry: a key that is already present keeps its
  position and takes the new value, a new key goes to the end. \<open>Object_keys\<close> lists
  the keys in that order and \<open>js_get\<close> reads an own property (\<open>None\<close> when the
  object has no such entry). It is used where the key is one of the object's own keys or
  a literal of the source; a read with a key that comes from outside also finds the
  properties inherited from \<^verbatim>\<open>Object.prototype\<close> and is modelled where it occurs
  (\<open>delays_for\<close>).
\<close>

fun js_set :: "(string \<times> 'v) list \<Rightarrow> string \<Rightarrow> 'v \<Rightarrow> (string \<times> 'v) list" where
  "js_set [] k v = [(k, v)]"
| "js_set ((k', v') # kvs) k v =
     (if k' = k then (k', v) # kvs else (k', v') # js_set kvs k v)"

definition object_literal :: "(string \<times> 'v) list \<Rightarrow> (string \<times> 'v) list" where
  "object_literal entries = foldl (\<lambda>obj (k, v). js_set obj k v) [] entries"

definition Object_keys :: "(string \<times> 'v) list \<Rightarrow> string list" where
  "Object_keys obj = map fst obj"

definition js_get :: "(string \<times> 'v) list \<Rightarrow> string \<Rightarrow> 'v option" where
  "js_get obj k = map_of obj k"

text \<open>\<^verbatim>\<open>xs[i]\<close> for an integer \<open>i\<close>: \<^verbatim>\<open>undefined\<close> outside \<open>0 .. length - 1\<close>.\<close>

definition js_index :: "'a list \<Rightarrow> int \<Rightarrow> 'a option" where
  "js_index xs i = (if 0 \<le> i \<and> i < int (length xs) then Some (xs ! nat i) else None)"

section \<open>Timezone detector (src/services/timezone-detector.js)\<close>

text \<open>The entries of the \<^verbatim>\<open>TIMEZONE_MAP\<close> literal, in source order.\<close>

definition TIMEZONE_MAP_literal :: "(string \<times> string) list" where
  "TIMEZONE_MAP_literal =
   [(''+44'', ''Europe/London''),
    (''+353'', ''Europe/Dublin''),
    (''+33'', ''Europe/Paris''),
    (''+49'', ''Europe/Berlin''),
    (''+34'', ''Europe/Madrid''),
    (''+39'', ''Europe/Rome''),
    (''+31'', ''Europe/Amsterdam''),
    (''+32'', ''Europe/Brussels''),
    (''+41'', ''Europe/Zurich''),
    (''+43'', ''Europe/Vienna''),
    (''+48'', ''Europe/Warsaw''),
    (''+46'', ''Europe/Stockholm''),
    (''+47'', ''Europe/Oslo''),
    (''+45'', ''Europe/Copenhagen''),
    (''+358'', ''Europe/Helsinki''),
    (''+30'', ''Europe/Athens''),
    (''+90'', ''Europe/Istanbul''),
    (''+355'', ''Europe/Tirane''),
    (''+381'', ''Europe/Belgrade''),
    (''+385'', ''Europe/Zagreb''),
    (''+380'', ''Europe/Kiev''),
    (''+375'', ''Europe/Minsk''),
    (''+40'', ''Europe/Bucharest''),
    (''+359'', ''Europe/Sofia''),
    (''+36'', ''Europe/Budapest''),
    (''+420'', ''Europe/Prague''),
    (''+421'', ''Europe/Bratislava''),
    (''+386'', ''Europe/Ljubljana''),
    (''+382'', ''Europe/Podgorica''),
    (''+389'', ''Europe/Skopje''),
    (''+387'', ''Europe/Sarajevo''),
    (''+383'', ''Europe/Pristina''),
    (''+373'', ''Europe/Chisinau''),
    (''+370'', ''Europe/Vilnius''),
    (''+371'', ''Europe/Riga''),
    (''+372'', ''Europe/Tallinn''),
    (''+93'', ''Asia/Kabul''),
    (''+963'', ''Asia/Damascus''),
    (''+964'', ''Asia/Baghdad''),
    (''+98'', ''Asia/Tehran''),
    (''+967'', ''Asia/Aden''),
    (''+970'', ''Asia/Gaza''),
    (''+962'', ''Asia/Amman''),
    (''+961'', ''Asia/Beirut''),
    (''+972'', ''Asia/Jerusalem''),
    (''+966'', ''Asia/Riyadh''),
    (''+971'', ''Asia/Dubai''),
    (''+974'', ''Asia/Qatar''),
    (''+973'', ''Asia/Bahrain''),
    (''+965'', ''Asia/Kuwait''),
    (''+968'', ''Asia/Muscat''),
    (''+92'', ''Asia/Karachi''),
    (''+91'', ''Asia/Kolkata''),
    (''+880'', ''Asia/Dhaka''),
    (''+94'', ''Asia/Colombo''),
    (''+95'', ''Asia/Yangon''),
    (''+977'', ''Asia/Kathmandu''),
    (''+975'', ''Asia/Thimphu''),
    (''+93'', ''Asia/Kabul''),
    (''+992'', ''Asia/Dushanbe''),
    (''+998'', ''Asia/Tashkent''),
    (''+996'', ''Asia/Bishkek''),
    (''+993'', ''Asia/Ashgabat''),
    (''+7'', ''Asia/Almaty''),
    (''+86'', ''Asia/Shanghai''),
    (''+852'', ''Asia/Hong_Kong''),
    (''+853'', ''Asia/Macau''),
    (''+84'', ''Asia/Ho_Chi_Minh''),
    (''+66'', ''Asia/Bangkok''),
    (''+855'', ''Asia/Phnom_Penh''),
    (''+856'', ''Asia/Vientiane''),
    (''+60'', ''Asia/Kuala_Lumpur''),
    (''+65'', ''Asia/Singapore''),
    (''+62'', ''Asia/Jakarta''),
    (''+63'', ''Asia/Manila''),
    (''+82'', ''Asia/Seoul''),
    (''+850'', ''Asia/Pyongyang''),
    (''+81'', ''Asia/Tokyo''),
    (''+886'', ''Asia/Taipei''),
    (''+249'', ''Africa/Khartoum''),
    (''+211'', ''Africa/Juba''),
    (''+252'', ''Africa/Mogadishu''),
    (''+291'', ''Africa/Asmara''),
    (''+251'', ''Africa/Addis_Ababa''),
    (''+234'', ''Africa/Lagos''),
    (''+233'', ''Africa/Accra''),
    (''+225'', ''Africa/Abidjan''),
    (''+221'', ''Africa/Dakar''),
    (''+220'', ''Africa/Banjul''),
    (''+224'', ''Africa/Conakry''),
    (''+232'', ''Africa/Freetown''),
    (''+231'', ''Africa/Monrovia''),
    (''+237'', ''Africa/Douala''),
    (''+243'', ''Africa/Kinshasa''),
    (''+242'', ''Africa/Brazzaville''),
    (''+256'', ''Africa/Kampala''),
    (''+250'', ''Africa/Kigali''),
    (''+257'', ''Africa/Bujumbura''),
    (''+254'', ''Africa/Nairobi''),
    (''+255'', ''Africa/Dar_es_Salaam''),
    (''+263'', ''Africa/Harare''),
    (''+27'', ''Africa/Johannesburg''),
    (''+20'', ''Africa/Cairo''),
    (''+218'', ''Africa/Tripoli''),
    (''+216'', ''Africa/Tunis''),
    (''+213'', ''Africa/Algiers''),
    (''+212'', ''Africa/Casablanca''),
    (''+1'', ''America/New_York''),
    (''+52'', ''America/Mexico_City''),
    (''+55'', ''America/Sao_Paulo''),
    (''+54'', ''America/Buenos_Aires''),
    (''+56'', ''America/Santiago''),
    (''+57'', ''America/Bogota''),
    (''+51'', ''America/Lima''),
    (''+58'', ''America/Caracas''),
    (''+593'', ''America/Guayaquil''),
    (''+591'', ''America/La_Paz''),
    (''+595'', ''America/Asuncion''),
    (''+598'', ''America/Montevideo''),
    (''+53'', ''America/Havana''),
    (''+509'', ''America/Port-au-Prince''),
    (''+1809'', ''America/Santo_Domingo''),
    (''+502'', ''America/Guatemala''),
    (''+503'', ''America/El_Salvador''),
    (''+504'', ''America/Tegucigalpa''),
    (''+505'', ''America/Managua''),
    (''+507'', ''America/Panama''),
    (''+506'', ''America/Costa_Rica''),
    (''+61'', ''Australia/Sydney''),
    (''+64'', ''Pacific/Auckland''),
    (''+679'', ''Pacific/Fiji'')]"

definition TIMEZONE_MAP :: "(string \<times> string) list" where
  "TIMEZONE_MAP = object_literal TIMEZONE_MAP_literal"

text \<open>
  \<^verbatim>\<open>phoneNumber.replace(/[\s\-\(\)]/g, '')\<close>: the class \<^verbatim>\<open>\s\<close> on 8-bit characters is
  tab, line feed, vertical tab, form feed, carriage return, space and no-break space.
\<close>

definition is_space :: "char \<Rightarrow> bool" where
  "is_space c = (c \<in> set [CHR 0x09, CHR 0x0A, CHR 0x0B, CHR 0x0C, CHR 0x0D, CHR '' '', CHR 0xA0])"

definition is_separator :: "char \<Rightarrow> bool" where
  "is_separator c = (is_space c \<or> c = CHR ''-'' \<or> c = CHR ''('' \<or> c = CHR '')'')"

definition clean :: "string \<Rightarrow> string" where
  "clean phoneNumber = filter (\<lambda>c. \<not> is_separator c) phoneNumber"

text \<open>
  \<^verbatim>\<open>Object.keys(TIMEZONE_MAP).sort((a, b) => b.length - a.length)\<close>: a stable sort,
  longest code first.
\<close>

definition sortedCodes :: "string list" where
  "sortedCodes = sort_key (\<lambda>code. - int (length code)) (Object_keys TIMEZONE_MAP)"

text \<open>\<^verbatim>\<open>process.env.DEFAULT_TIMEZONE || 'Europe/London'\<close>; the variable is a parameter.\<close>

definition default_timezone :: "jsval \<Rightarrow> jsval" where
  "default_timezone DEFAULT_TIMEZONE = js_or DEFAULT_TIMEZONE (Str ''Europe/London'')"

definition tz_of_code :: "string \<Rightarrow> jsval" where
  "tz_of_code code = (case js_get TIMEZONE_MAP code of Some tz \<Rightarrow> Str tz | None \<Rightarrow> Undefined)"

fun detectTimezone :: "jsval \<Rightarrow> jsval \<Rightarrow> jsval" where
  "detectTimezone DEFAULT_TIMEZONE (Str phoneNumber) =
     (if phoneNumber = [] then default_timezone DEFAULT_TIMEZONE
      else (case find (\<lambda>code. prefix code (clean phoneNumber)) sortedCodes of
              Some code \<Rightarrow> tz_of_code code
            | None \<Rightarrow> default_timezone DEFAULT_TIMEZONE))"
| "detectTimezone DEFAULT_TIMEZONE _ = default_timezone DEFAULT_TIMEZONE"

fun getCountryCode :: "jsval \<Rightarrow> jsval" where
  "getCountryCode (Str phoneNumber) =
     (if phoneNumber = [] then Null
      else (case find (\<lambda>code. prefix code (clean phoneNumber)) sortedCodes of
              Some code \<Rightarrow> Str code
            | None \<Rightarrow> Null))"
| "getCountryCode _ = Null"

section \<open>Retry policy table (src/services/smart-retry-calculator.js)\<close>

definition RETRY_DELAYS :: "(string \<times> int list) list" where
  "RETRY_DELAYS =
   [(''customer-did-not-answer'', [30, 120, 240]),
    (''customer-ended-call'', [120, 360, 1440]),
    (''customer-busy'', [60, 240, 720]),
    (''assistant-error'', [5, 15, 30]),
    (''default'', [60, 180, 360])]"

definition MAX_ATTEMPTS :: int where
  "MAX_ATTEMPTS = 3"

text \<open>
  \<^verbatim>\<open>RETRY_DELAYS\<close> is a plain object, so \<^verbatim>\<open>RETRY_DELAYS[endedReason]\<close> finds an own
  entry of the table or, for the names below, the member that every object inherits from
  \<^verbatim>\<open>Object.prototype\<close>. The inherited members are functions (and, for \<^verbatim>\<open>__proto__\<close>,
  the prototype object itself): truthy values that are not arrays and have no property at
  an integer index.
\<close>

definition Object_prototype_names :: "string list" where
  "Object_prototype_names =
   [''constructor'', ''__defineGetter__'', ''__defineSetter__'', ''hasOwnProperty'',
    ''__lookupGetter__'', ''__lookupSetter__'', ''isPrototypeOf'', ''propertyIsEnumerable'',
    ''toString'', ''valueOf'', ''__proto__'', ''toLocaleString'']"

datatype delays_value = Delays "int list" | Inherited

text \<open>
  \<^verbatim>\<open>RETRY_DELAYS[endedReason] || RETRY_DELAYS['default']\<close>: arrays and inherited members
  are truthy, so the default entry is taken exactly when the reason is neither a key of
  the table nor an inherited name.
\<close>

definition delays_for :: "string \<Rightarrow> delays_value option" where
  "delays_for endedReason =
     (case js_get RETRY_DELAYS endedReason of
        Some delays \<Rightarrow> Some (Delays delays)
      | None \<Rightarrow>
          if endedReason \<in> set Object_prototype_names then Some Inherited
          else map_option Delays (js_get RETRY_DELAYS ''default''))"

text \<open>
  \<^verbatim>\<open>delays[currentAttempts] || delays[delays.length - 1]\<close>: the last element is taken when
  the index is out of range (\<^verbatim>\<open>undefined\<close>) or the element is \<open>0\<close> (falsy).
\<close>

definition delay_at :: "int list \<Rightarrow> int \<Rightarrow> int option" where
  "delay_at delays currentAttempts =
     (case js_index delays currentAttempts of
        Some d \<Rightarrow> (if d \<noteq> 0 then Some d else js_index delays (int (length delays) - 1))
      | None \<Rightarrow> js_index delays (int (length delays) - 1))"

text \<open>
  The value \<^verbatim>\<open>delayMinutes\<close> of \<open>calculateRetry\<close>: the expression above on an array; on
  an inherited member both reads are \<^verbatim>\<open>undefined\<close>.
\<close>

definition delayMinutes_of :: "delays_value \<Rightarrow> int \<Rightarrow> int option" where
  "delayMinutes_of delays currentAttempts =
     (case delays of
        Delays ds \<Rightarrow> delay_at ds currentAttempts
      | Inherited \<Rightarrow> None)"


section \<open>Instants, zones and the luxon date-time operations\<close>

text \<open>
  An instant is a JavaScript \<^verbatim>\<open>Date\<close> value: milliseconds since the epoch. A zone gives
  the UTC offset, in minutes, in force at each instant. Over the few days that one
  computation of the validator spans a zone changes its offset at most once (a clock
  change), so a zone is the offset before the change, the instant of the change and the
  offset after it; equal offsets give a zone without clock change.
\<close>

record zone =
  offset_before :: int
  change_at :: int
  offset_after :: int

definition zone_offset :: "zone \<Rightarrow> int \<Rightarrow> int" where
  "zone_offset tz t = (if t < change_at tz then offset_before tz else offset_after tz)"

text \<open>
  A luxon \<^verbatim>\<open>DateTime\<close> holds the instant \<open>ts\<close>, the zone, and the offset \<open>o\<close> with
  which its local calendar fields are computed: they are the UTC fields of
  \<open>ts + o * 60 * 1000\<close>.
\<close>

record datetime =
  dt_ts :: int
  dt_o :: int
  dt_zone :: zone

definition local_ts :: "datetime \<Rightarrow> int" where
  "local_ts dt = dt_ts dt + dt_o dt * 60 * 1000"

text \<open>\<^verbatim>\<open>DateTime.fromJSDate(date).setZone(timezone)\<close>, and \<^verbatim>\<open>dt.toJSDate()\<close> is \<open>dt_ts\<close>.\<close>

definition setZone :: "int \<Rightarrow> zone \<Rightarrow> datetime" where
  "setZone date tz = \<lparr>dt_ts = date, dt_o = zone_offset tz date, dt_zone = tz\<rparr>"

text \<open>
  luxon's \<^verbatim>\<open>fixOffset(localTS, o, tz)\<close>: the instant and offset of a local time, with
  \<open>o\<close> as first guess of the offset. A local time that a clock change skips is moved
  forward by the size of the change.
\<close>

definition fixOffset :: "int \<Rightarrow> int \<Rightarrow> zone \<Rightarrow> int \<times> int" where
  "fixOffset localTS o1 tz =
     (let utcGuess = localTS - o1 * 60 * 1000;
          o2 = zone_offset tz utcGuess
      in if o1 = o2 then (utcGuess, o1)
         else
           (let utcGuess2 = utcGuess - (o2 - o1) * 60 * 1000;
                o3 = zone_offset tz utcGuess2
            in if o2 = o3 then (utcGuess2, o2)
               else (localTS - min o2 o3 * 60 * 1000, max o2 o3)))"

text \<open>\<^verbatim>\<open>dt.weekday\<close>: 1 is Monday, 7 is Sunday; the epoch day was a Thursday.\<close>

definition weekday :: "datetime \<Rightarrow> int" where
  "weekday dt = (local_ts dt div 86400000 + 3) mod 7 + 1"

text \<open>
  \<^verbatim>\<open>dt.set({ hour, minute, second })\<close>: the local fields with hour, minute and second
  replaced (the millisecond is kept, values out of range roll over), converted back
  with the current offset as guess.
\<close>

definition set_hms :: "datetime \<Rightarrow> int \<Rightarrow> int \<Rightarrow> int \<Rightarrow> datetime" where
  "set_hms dt hour minute second =
     (let l = local_ts dt;
          localTS = (l div 86400000) * 86400000 + hour * 3600000 + minute * 60000
                    + second * 1000 + l mod 1000;
          (ts, o1) = fixOffset localTS (dt_o dt) (dt_zone dt)
      in \<lparr>dt_ts = ts, dt_o = o1, dt_zone = dt_zone dt\<rparr>)"

text \<open>\<^verbatim>\<open>dt.plus({ days })\<close> adds calendar days to the local date.\<close>

definition plus_days :: "datetime \<Rightarrow> int \<Rightarrow> datetime" where
  "plus_days dt days =
     (let (ts, o1) = fixOffset (local_ts dt + days * 86400000) (dt_o dt) (dt_zone dt)
      in \<lparr>dt_ts = ts, dt_o = o1, dt_zone = dt_zone dt\<rparr>)"

text \<open>
  \<^verbatim>\<open>dt.plus({ minutes })\<close> adds elapsed time to the instant; an \<^verbatim>\<open>undefined\<close> amount
  (\<open>None\<close>) is no amount.
\<close>

definition plus_minutes :: "datetime \<Rightarrow> int option \<Rightarrow> datetime" where
  "plus_minutes dt minutes =
     (let (ts, o1) = fixOffset (local_ts dt) (dt_o dt) (dt_zone dt);
          millisToAdd = (case minutes of None \<Rightarrow> 0 | Some n \<Rightarrow> n * 60 * 1000)
      in if millisToAdd \<noteq> 0
         then \<lparr>dt_ts = ts + millisToAdd, dt_o = zone_offset (dt_zone dt) (ts + millisToAdd),
               dt_zone = dt_zone dt\<rparr>
         else \<lparr>dt_ts = ts, dt_o = o1, dt_zone = dt_zone dt\<rparr>)"

text \<open>\<^verbatim>\<open>Math.round(a / b)\<close> for an integer \<open>a\<close> and \<open>b = 60000\<close>: nearest integer, halves up.\<close>

definition Math_round_div :: "int \<Rightarrow> int \<Rightarrow> int" where
  "Math_round_div a b = (2 * a + b) div (2 * b)"

section \<open>Calling hours validator (calling-hours-validator.js)\<close>

text \<open>
  Errors raised while a request is served. A number read by \<^verbatim>\<open>parseInt\<close> is an
  integer or \<^verbatim>\<open>NaN\<close> (\<open>None\<close>); luxon's \<^verbatim>\<open>set\<close> rejects \<^verbatim>\<open>NaN\<close> as unit value.
\<close>

datatype js_error = TypeError | RangeError | InvalidUnitError

type_synonym jsnum = "int option"

record validator =
  startHour :: jsnum
  startMinute :: jsnum
  endHour :: jsnum
  endMinute :: jsnum
  businessDays :: "jsnum list"

subsection \<open>The constructor\<close>

record env =
  BUSINESS_HOURS_START :: "string option"
  BUSINESS_HOURS_END :: "string option"
  BUSINESS_DAYS :: "string option"

text \<open>\<^verbatim>\<open>s.split(sep)\<close> for a one-character separator.\<close>

fun js_split :: "char \<Rightarrow> string \<Rightarrow> string list" where
  "js_split sep [] = [[]]"
| "js_split sep (c # cs) =
     (if c = sep then [] # js_split sep cs
      else (case js_split sep cs of [] \<Rightarrow> [[c]] | w # ws \<Rightarrow> (c # w) # ws))"

definition trim :: "string \<Rightarrow> string" where
  "trim s = rev (dropWhile is_space (rev (dropWhile is_space s)))"

text \<open>
  \<^verbatim>\<open>parseInt(s)\<close>: leading whitespace, an optional sign, an optional \<^verbatim>\<open>0x\<close> prefix,
  then the longest run of digits; \<^verbatim>\<open>NaN\<close> when there is no digit. (Exact for results
  below \<open>2^53\<close>.)
\<close>

definition digit_value :: "nat \<Rightarrow> char \<Rightarrow> nat option" where
  "digit_value radix c =
     (let n = of_char c :: nat;
          v = (if 48 \<le> n \<and> n \<le> 57 then Some (n - 48)
               else if 97 \<le> n \<and> n \<le> 102 then Some (n - 87)
               else if 65 \<le> n \<and> n \<le> 70 then Some (n - 55)
               else None)
      in case v of None \<Rightarrow> None | Some d \<Rightarrow> (if d < radix then Some d else None))"

definition parse_digits :: "nat \<Rightarrow> string \<Rightarrow> jsnum" where
  "parse_digits radix s =
     (let ds = takeWhile (\<lambda>c. digit_value radix c \<noteq> None) s
      in if ds = [] then None
         else Some (foldl (\<lambda>acc c. acc * int radix
                + (case digit_value radix c of None \<Rightarrow> 0 | Some d \<Rightarrow> int d)) 0 ds))"

fun parse_unsigned :: "string \<Rightarrow> jsnum" where
  "parse_unsigned (a # b # cs) =
     (if a = CHR ''0'' \<and> (b = CHR ''x'' \<or> b = CHR ''X'') then parse_digits 16 cs
      else parse_digits 10 (a # b # cs))"
| "parse_unsigned cs = parse_digits 10 cs"

definition parseInt :: "string \<Rightarrow> jsnum" where
  "parseInt s =
     (case dropWhile is_space s of
        [] \<Rightarrow> None
      | c # cs \<Rightarrow>
          (if c = CHR ''-'' then map_option uminus (parse_unsigned cs)
           else if c = CHR ''+'' then parse_unsigned cs
           else parse_unsigned (c # cs)))"

text \<open>\<^verbatim>\<open>x || d\<close> for a string or \<^verbatim>\<open>undefined\<close> \<open>x\<close>.\<close>

definition or_default :: "string option \<Rightarrow> string \<Rightarrow> string" where
  "or_default x d = (case x of None \<Rightarrow> d | Some s \<Rightarrow> (if s = [] then d else s))"

text \<open>\<^verbatim>\<open>process.env.X?.split(':')[i]\<close>\<close>

definition split_part :: "string option \<Rightarrow> int \<Rightarrow> string option" where
  "split_part x i = (case x of None \<Rightarrow> None | Some s \<Rightarrow> js_index (js_split CHR '':'' s) i)"

definition CallingHoursValidator :: "env \<Rightarrow> validator" where
  "CallingHoursValidator e =
     \<lparr>startHour = parseInt (or_default (split_part (BUSINESS_HOURS_START e) 0) ''9''),
      startMinute = parseInt (or_default (split_part (BUSINESS_HOURS_START e) 1) ''0''),
      endHour = parseInt (or_default (split_part (BUSINESS_HOURS_END e) 0) ''19''),
      endMinute = parseInt (or_default (split_part (BUSINESS_HOURS_END e) 1) ''0''),
      businessDays = map (\<lambda>d. parseInt (trim d))
                       (js_split CHR '','' (or_default (BUSINESS_DAYS e) ''1,2,3,4,5''))\<rparr>"

subsection \<open>The methods\<close>

text \<open>\<^verbatim>\<open>this.businessDays.includes(dt.weekday)\<close>\<close>

definition array_includes :: "jsnum list \<Rightarrow> int \<Rightarrow> bool" where
  "array_includes days wd = (Some wd \<in> set days)"

text \<open>\<^verbatim>\<open>dt.set({ hour: h, minute: m, second: 0 })\<close> with the parsed fields.\<close>

definition set_hour_minute :: "datetime \<Rightarrow> jsnum \<Rightarrow> jsnum \<Rightarrow> js_error + datetime" where
  "set_hour_minute dt hour minute =
     (case hour of
        None \<Rightarrow> Inl InvalidUnitError
      | Some h \<Rightarrow>
          (case minute of
             None \<Rightarrow> Inl InvalidUnitError
           | Some m \<Rightarrow> Inr (set_hms dt h m 0)))"

definition isWithinCallingHours :: "validator \<Rightarrow> int \<Rightarrow> zone \<Rightarrow> js_error + bool" where
  "isWithinCallingHours v dateTime timezone =
     (let dt = setZone dateTime timezone
      in if \<not> array_includes (businessDays v) (weekday dt) then Inr False
         else
           (case set_hour_minute dt (startHour v) (startMinute v) of
              Inl e \<Rightarrow> Inl e
            | Inr startOfDay \<Rightarrow>
                (case set_hour_minute dt (endHour v) (endMinute v) of
                   Inl e \<Rightarrow> Inl e
                 | Inr endOfDay \<Rightarrow>
                     Inr (dt_ts dt \<ge> dt_ts startOfDay \<and> dt_ts dt < dt_ts endOfDay))))"

text \<open>
  The loop of \<open>getNextValidCallingTime\<close>: advance a day at a time while the weekday is
  not a business day, at most \<open>maxIterations\<close> times.
\<close>

fun advance :: "validator \<Rightarrow> datetime \<Rightarrow> nat \<Rightarrow> datetime" where
  "advance v nextDay 0 = nextDay"
| "advance v nextDay (Suc maxIterations) =
     (if \<not> array_includes (businessDays v) (weekday nextDay)
      then advance v (plus_days nextDay 1) maxIterations
      else nextDay)"

definition getNextValidCallingTime :: "validator \<Rightarrow> int \<Rightarrow> zone \<Rightarrow> js_error + int" where
  "getNextValidCallingTime v fromDateTime timezone =
     (let dt = setZone fromDateTime timezone
      in case isWithinCallingHours v (dt_ts dt) timezone of
           Inl e \<Rightarrow> Inl e
         | Inr True \<Rightarrow> Inr (dt_ts dt)
         | Inr False \<Rightarrow>
             (case set_hour_minute dt (startHour v) (startMinute v) of
                Inl e \<Rightarrow> Inl e
              | Inr todayStart \<Rightarrow>
                  if dt_ts dt < dt_ts todayStart \<and> array_includes (businessDays v) (weekday dt)
                  then Inr (dt_ts todayStart)
                  else
                    (case set_hour_minute (plus_days dt 1) (startHour v) (startMinute v) of
                       Inl e \<Rightarrow> Inl e
                     | Inr nextDay \<Rightarrow> Inr (dt_ts (advance v nextDay 7)))))"

record delay_result =
  withinHours :: bool
  adjustedTime :: int
  originalDelay :: "int option"
  adjustedDelay :: "int option"

text \<open>The clock reading \<^verbatim>\<open>DateTime.now()\<close> is the parameter \<open>now\<close>.\<close>

definition calculateDelayWithinHours ::
  "validator \<Rightarrow> int \<Rightarrow> int option \<Rightarrow> zone \<Rightarrow> js_error + delay_result" where
  "calculateDelayWithinHours v now delayMinutes timezone =
     (let now_dt = setZone now timezone;
          targetTime = plus_minutes now_dt delayMinutes
      in case isWithinCallingHours v (dt_ts targetTime) timezone of
           Inl e \<Rightarrow> Inl e
         | Inr True \<Rightarrow>
             Inr \<lparr>withinHours = True, adjustedTime = dt_ts targetTime,
                  originalDelay = delayMinutes, adjustedDelay = delayMinutes\<rparr>
         | Inr False \<Rightarrow>
             (case getNextValidCallingTime v (dt_ts targetTime) timezone of
                Inl e \<Rightarrow> Inl e
              | Inr nextValidTime \<Rightarrow>
                  Inr \<lparr>withinHours = False, adjustedTime = nextValidTime,
                       originalDelay = delayMinutes,
                       adjustedDelay = Some (Math_round_div (nextValidTime - dt_ts now_dt) 60000)\<rparr>))"

section \<open>Smart retry calculator (src/services/smart-retry-calculator.js)\<close>

record retry_options =
  opt_endedReason :: string
  opt_currentAttempts :: "int option"
  opt_phoneNumber :: jsval
  opt_timezone :: jsval

text \<open>
  The object returned by \<open>calculateRetry\<close>; \<open>shouldRetry\<close> tells the two shapes apart.
  The field \<^verbatim>\<open>nextCallTimeISO\<close> is the ISO rendering of \<open>nextCallTime\<close>.
\<close>

datatype retry_info =
  NoRetry (ri_reason: string) (ri_attempts: int) (ri_maxAttempts: int) (ri_action: string)
| shouldRetry: Retry (ri_attempts: int) (ri_maxAttempts: int)
    (ri_originalDelayMinutes: "int option") (ri_adjustedDelayMinutes: "int option")
    (ri_nextCallTime: int) (ri_timezone: jsval) (ri_wasAdjustedForBusinessHours: bool)
    (ri_endedReason: string)

text \<open>
  The validator methods declare \<^verbatim>\<open>timezone = 'Europe/London'\<close>: the default replaces an
  \<^verbatim>\<open>undefined\<close> argument.
\<close>

definition timezone_arg :: "jsval \<Rightarrow> jsval" where
  "timezone_arg timezone = (if timezone = Undefined then Str ''Europe/London'' else timezone)"

text \<open>
  \<open>calculateRetry\<close>. Its parameters besides the options are the environment variable
  \<^verbatim>\<open>DEFAULT_TIMEZONE\<close>, the zone database \<open>zones\<close> (the zone luxon resolves a timezone
  argument to, \<open>None\<close> when it knows no such zone), the validator and the clock reading.
  With an unknown zone every luxon value is invalid, the next call time is an invalid
  date, and \<^verbatim>\<open>adjustedTime.toISOString()\<close> raises a \<^verbatim>\<open>RangeError\<close>.
\<close>

definition calculateRetry ::
  "jsval \<Rightarrow> (jsval \<Rightarrow> zone option) \<Rightarrow> validator \<Rightarrow> int \<Rightarrow> retry_options
   \<Rightarrow> js_error + retry_info" where
  "calculateRetry DEFAULT_TIMEZONE zones v now options =
     (let currentAttempts = (case opt_currentAttempts options of None \<Rightarrow> 0 | Some n \<Rightarrow> n);
          timezone = js_or (opt_timezone options)
                       (detectTimezone DEFAULT_TIMEZONE (opt_phoneNumber options))
      in if currentAttempts \<ge> MAX_ATTEMPTS
         then Inr (NoRetry ''max_attempts_reached'' currentAttempts MAX_ATTEMPTS
                     ''send_sms_fallback'')
         else
           (case delays_for (opt_endedReason options) of
              None \<Rightarrow> Inl TypeError
            | Some delays \<Rightarrow>
                (let delayMinutes = delayMinutes_of delays currentAttempts
                 in case zones (timezone_arg timezone) of
                      None \<Rightarrow> Inl RangeError
                    | Some tz \<Rightarrow>
                        (case calculateDelayWithinHours v now delayMinutes tz of
                           Inl e \<Rightarrow> Inl e
                         | Inr r \<Rightarrow>
                             Inr (Retry (currentAttempts + 1) MAX_ATTEMPTS delayMinutes
                                    (adjustedDelay r) (adjustedTime r) timezone
                                    (\<not> withinHours r) (opt_endedReason options))))))"

section \<open>Local wall-clock time of an instant\<close>

text \<open>
  The notions in which the calling window is specified: the local time of an instant in
  a zone (as milliseconds of the local calendar), its weekday and time of day, the wall
  clock time \<open>hour:minute\<close> as milliseconds after midnight, and the local times that a
  clock change skips (no instant has them).
\<close>

definition local_time :: "zone \<Rightarrow> int \<Rightarrow> int" where
  "local_time tz t = t + zone_offset tz t * 60000"

definition local_weekday :: "zone \<Rightarrow> int \<Rightarrow> int" where
  "local_weekday tz t = (local_time tz t div 86400000 + 3) mod 7 + 1"

definition time_of_day :: "zone \<Rightarrow> int \<Rightarrow> int" where
  "time_of_day tz t = local_time tz t mod 86400000"

definition wall_clock :: "int \<Rightarrow> int \<Rightarrow> int" where
  "wall_clock hour minute = (hour * 60 + minute) * 60000"

definition skipped :: "zone \<Rightarrow> int \<Rightarrow> bool" where
  "skipped tz l =
     (change_at tz + offset_before tz * 60000 \<le> l \<and> l < change_at tz + offset_after tz * 60000)"

text \<open>
  The local time \<open>hour:minute:00\<close> on the local day of the instant \<open>t\<close>, with the
  millisecond of \<open>t\<close>.
\<close>

definition boundary :: "zone \<Rightarrow> int \<Rightarrow> int \<Rightarrow> int \<Rightarrow> int" where
  "boundary tz t hour minute =
     (local_time tz t div 86400000) * 86400000 + wall_clock hour minute
     + local_time tz t mod 1000"

text \<open>
  The instant \<open>t\<close> lies behind the skipped local time \<open>l\<close>: its local time is at or
  after \<open>l\<close> and before the local time to which the clock change moves \<open>l\<close>.
\<close>

definition behind_skipped :: "zone \<Rightarrow> int \<Rightarrow> int \<Rightarrow> bool" where
  "behind_skipped tz t l =
     (skipped tz l \<and> l \<le> local_time tz t
      \<and> local_time tz t < l + (offset_after tz - offset_before tz) * 60000)"


section \<open>Configuration errors named by the specification\<close>

text \<open>
  The specification's error taxonomy speaks of an empty weekday set and of a window whose
  start is not before its end. On a validator as the constructor builds it, these are: no
  entry of \<open>businessDays\<close> is a weekday number \<open>1..7\<close>; the four time fields are not all
  numbers, or the end is not after the start.
\<close>

definition no_weekday :: "validator \<Rightarrow> bool" where
  "no_weekday v =
     list_all (\<lambda>d. case d of None \<Rightarrow> True | Some n \<Rightarrow> n < 1 \<or> 7 < n) (businessDays v)"

definition malformed_window :: "validator \<Rightarrow> bool" where
  "malformed_window v =
     (case startHour v of
        None \<Rightarrow> True
      | Some sh \<Rightarrow>
          (case startMinute v of
             None \<Rightarrow> True
           | Some sm \<Rightarrow>
               (case endHour v of
                  None \<Rightarrow> True
                | Some eh \<Rightarrow>
                    (case endMinute v of
                       None \<Rightarrow> True
                     | Some em \<Rightarrow> wall_clock eh em \<le> wall_clock sh sm))))"
section \<open>Facts about the timezone table\<close>

lemma map_of_js_set: "map_of (js_set obj k v) = (map_of obj)(k \<mapsto> v)"
  by (induction obj) (auto simp: fun_eq_iff)

lemma keys_js_set:
  "map fst (js_set obj k v) = (if k \<in> set (map fst obj) then map fst obj else map fst obj @ [k])"
  by (induction obj) (force simp: image_iff)+

lemma map_of_foldl_js_set:
  "map_of (foldl (\<lambda>obj (k, v). js_set obj k v) obj es) = map_of obj ++ map_of (rev es)"
proof (induction es arbitrary: obj)
  case Nil
  show ?case by simp
next
  case (Cons e es)
  obtain k v where e: "e = (k, v)" by (cases e)
  have "map_of (foldl (\<lambda>obj (k, v). js_set obj k v) obj (e # es))
        = map_of (foldl (\<lambda>obj (k, v). js_set obj k v) (js_set obj k v) es)"
    by (simp add: e)
  also have "\<dots> = map_of (js_set obj k v) ++ map_of (rev es)"
    by (rule Cons.IH)
  also have "\<dots> = map_of obj ++ ([k \<mapsto> v] ++ map_of (rev es))"
    unfolding map_of_js_set by (auto simp: fun_eq_iff map_add_def split: option.splits)
  also have "[k \<mapsto> v] ++ map_of (rev es) = map_of (rev (e # es))"
    by (simp add: e)
  finally show ?case .
qed

lemma keys_foldl_js_set:
  "set (map fst (foldl (\<lambda>obj (k, v). js_set obj k v) obj es))
   = set (map fst obj) \<union> set (map fst es)"
proof (induction es arbitrary: obj)
  case Nil
  show ?case by simp
next
  case (Cons e es)
  obtain k v where e: "e = (k, v)" by (cases e)
  have "set (map fst (js_set obj k v)) = insert k (set (map fst obj))"
    unfolding keys_js_set by auto
  then show ?case using Cons.IH [of "js_set obj k v"]
    by (simp add: e)
qed

text \<open>Reading a property of an object literal gives the value of the last entry with that key.\<close>

lemma js_get_object_literal: "js_get (object_literal es) k = map_of (rev es) k"
  by (simp add: js_get_def object_literal_def map_of_foldl_js_set)

lemma set_Object_keys_literal: "set (Object_keys (object_literal es)) = set (map fst es)"
  unfolding Object_keys_def object_literal_def keys_foldl_js_set by simp

lemma set_sortedCodes: "set sortedCodes = set (Object_keys TIMEZONE_MAP)"
  by (simp add: sortedCodes_def)

lemma sorted_sortedCodes: "sorted (map (\<lambda>code. - int (length code)) sortedCodes)"
  by (simp add: sortedCodes_def)

lemma find_longest:
  "sorted (map (\<lambda>c. - int (length c)) cs) \<Longrightarrow> find P cs = Some c \<Longrightarrow> c' \<in> set cs \<Longrightarrow> P c'
   \<Longrightarrow> length c' \<le> length c"
  by (induction cs) (auto split: if_splits)

lemma find_in_set: "find P cs = Some c \<Longrightarrow> c \<in> set cs \<and> P c"
  by (induction cs) (auto split: if_splits)

lemma find_exists: "c' \<in> set cs \<Longrightarrow> P c' \<Longrightarrow> \<exists>c. find P cs = Some c"
  by (cases "find P cs") (auto simp: find_None_iff)

lemma literal_keys_all:
  "list_all (\<lambda>(k, v). P k) TIMEZONE_MAP_literal \<Longrightarrow> k \<in> set (Object_keys TIMEZONE_MAP) \<Longrightarrow> P k"
  by (auto simp: TIMEZONE_MAP_def set_Object_keys_literal list_all_iff)

lemma tz_of_code_1809: "tz_of_code ''+1809'' = Str ''America/Santo_Domingo''"
proof -
  have "map_of (rev TIMEZONE_MAP_literal) ''+1809'' = Some ''America/Santo_Domingo''"
    by code_simp
  then show ?thesis
    by (simp add: tz_of_code_def TIMEZONE_MAP_def js_get_object_literal)
qed

lemma tz_of_code_1: "tz_of_code ''+1'' = Str ''America/New_York''"
proof -
  have "map_of (rev TIMEZONE_MAP_literal) ''+1'' = Some ''America/New_York''"
    by code_simp
  then show ?thesis
    by (simp add: tz_of_code_def TIMEZONE_MAP_def js_get_object_literal)
qed

lemma key_1809: "''+1809'' \<in> set (Object_keys TIMEZONE_MAP)"
proof -
  have "list_ex (\<lambda>(k, v). k = ''+1809'') TIMEZONE_MAP_literal" by code_simp
  then show ?thesis
    by (force simp: TIMEZONE_MAP_def set_Object_keys_literal list_ex_iff)
qed

lemma key_1: "''+1'' \<in> set (Object_keys TIMEZONE_MAP)"
proof -
  have "list_ex (\<lambda>(k, v). k = ''+1'') TIMEZONE_MAP_literal" by code_simp
  then show ?thesis
    by (force simp: TIMEZONE_MAP_def set_Object_keys_literal list_ex_iff)
qed

lemma keys_nonempty: "k \<in> set (Object_keys TIMEZONE_MAP) \<Longrightarrow> k \<noteq> []"
proof -
  have "list_all (\<lambda>(k, v). k \<noteq> []) TIMEZONE_MAP_literal" by code_simp
  then show "k \<in> set (Object_keys TIMEZONE_MAP) \<Longrightarrow> k \<noteq> []"
    by (rule literal_keys_all)
qed

lemma keys_length_5:
  "k \<in> set (Object_keys TIMEZONE_MAP) \<Longrightarrow> 5 \<le> length k \<Longrightarrow> k = ''+1809''"
proof -
  have "list_all (\<lambda>(k, v). 5 \<le> length k \<longrightarrow> k = ''+1809'') TIMEZONE_MAP_literal"
    by code_simp
  then show "k \<in> set (Object_keys TIMEZONE_MAP) \<Longrightarrow> 5 \<le> length k \<Longrightarrow> k = ''+1809''"
    using literal_keys_all [where P = "\<lambda>k. 5 \<le> length k \<longrightarrow> k = ''+1809''"] by blast
qed

lemma keys_comparable_with_1:
  "k \<in> set (Object_keys TIMEZONE_MAP) \<Longrightarrow> prefix k ''+1'' \<or> prefix ''+1'' k
   \<Longrightarrow> k = ''+1'' \<or> k = ''+1809''"
proof -
  have "list_all (\<lambda>(k, v). prefix k ''+1'' \<or> prefix ''+1'' k \<longrightarrow> k = ''+1'' \<or> k = ''+1809'')
          TIMEZONE_MAP_literal"
    by code_simp
  then show "k \<in> set (Object_keys TIMEZONE_MAP) \<Longrightarrow> prefix k ''+1'' \<or> prefix ''+1'' k
      \<Longrightarrow> k = ''+1'' \<or> k = ''+1809''"
    using literal_keys_all
      [where P = "\<lambda>k. prefix k ''+1'' \<or> prefix ''+1'' k \<longrightarrow> k = ''+1'' \<or> k = ''+1809''"]
    by blast
qed

text \<open>
  The loop of \<open>detectTimezone\<close> returns the zone of the first code, in longest-first
  order, that starts the cleaned number.
\<close>

lemma detectTimezone_find:
  assumes "p \<in> set (Object_keys TIMEZONE_MAP)" and "prefix p (clean phoneNumber)"
  shows "\<exists>code. find (\<lambda>code. prefix code (clean phoneNumber)) sortedCodes = Some code
           \<and> detectTimezone d (Str phoneNumber) = tz_of_code code"
proof -
  from assms have "clean phoneNumber \<noteq> []"
    using keys_nonempty by fastforce
  then have ne: "phoneNumber \<noteq> []"
    by (auto simp: clean_def)
  from assms obtain code
    where f: "find (\<lambda>code. prefix code (clean phoneNumber)) sortedCodes = Some code"
    using find_exists [of p sortedCodes "\<lambda>code. prefix code (clean phoneNumber)"]
    by (auto simp: set_sortedCodes)
  with ne show ?thesis by simp
qed

text \<open>A number of Kosovo resolves to the table's entry for \<open>+383\<close>.\<close>

lemma detectTimezone_383:
  "detectTimezone d (Str ''+38344123456'') = Str ''Europe/Pristina''"
proof -
  have c: "clean ''+38344123456'' = ''+38344123456''"
    by (simp add: clean_def is_separator_def is_space_def)
  have "list_ex (\<lambda>(k, v). k = ''+383'') TIMEZONE_MAP_literal" by code_simp
  then have k: "''+383'' \<in> set (Object_keys TIMEZONE_MAP)"
    by (force simp: TIMEZONE_MAP_def set_Object_keys_literal list_ex_iff)
  have p: "prefix ''+383'' (clean ''+38344123456'')"
    by (simp add: c)
  from detectTimezone_find [OF k p] obtain code
    where f: "find (\<lambda>code. prefix code (clean ''+38344123456'')) sortedCodes = Some code"
      and r: "detectTimezone d (Str ''+38344123456'') = tz_of_code code"
    by blast
  from f have m: "code \<in> set (Object_keys TIMEZONE_MAP)" "prefix code ''+38344123456''"
    using find_in_set [OF f] by (simp_all add: set_sortedCodes c)
  have "list_all (\<lambda>(k, v). prefix k ''+38344123456'' \<longrightarrow> k = ''+383'') TIMEZONE_MAP_literal"
    by code_simp
  then have "code = ''+383''"
    using literal_keys_all [where P = "\<lambda>k. prefix k ''+38344123456'' \<longrightarrow> k = ''+383''", OF _ m(1)]
      m(2) by blast
  moreover have "tz_of_code ''+383'' = Str ''Europe/Pristina''"
  proof -
    have "map_of (rev TIMEZONE_MAP_literal) ''+383'' = Some ''Europe/Pristina''"
      by code_simp
    then show ?thesis
      by (simp add: tz_of_code_def TIMEZONE_MAP_def js_get_object_literal)
  qed
  ultimately show ?thesis using r by simp
qed

section \<open>Facts about zones and the luxon operations\<close>

lemma fixOffset_alt:
  "fixOffset l o1 z =
     (if zone_offset z (l - o1 * 60000) = o1 then (l - o1 * 60000, o1)
      else if zone_offset z (l - zone_offset z (l - o1 * 60000) * 60000)
              = zone_offset z (l - o1 * 60000)
           then (l - zone_offset z (l - o1 * 60000) * 60000, zone_offset z (l - o1 * 60000))
           else (l - min (zone_offset z (l - o1 * 60000))
                         (zone_offset z (l - zone_offset z (l - o1 * 60000) * 60000)) * 60000,
                 max (zone_offset z (l - o1 * 60000))
                     (zone_offset z (l - zone_offset z (l - o1 * 60000) * 60000))))"
proof -
  have e: "l - o1 * 60 * 1000 - (o2 - o1) * 60 * 1000 = l - o2 * 60000" for o2
    by (simp add: algebra_simps)
  have f: "x * 60 * 1000 = x * 60000" for x :: int by simp
  show ?thesis
    unfolding fixOffset_def Let_def e unfolding f by auto
qed


lemma fixOffset_cases:
  assumes "fixOffset l o1 z = (t', o')"
  obtains (same) "zone_offset z (l - o1 * 60000) = o1" "t' = l - o1 * 60000" "o' = o1"
  | (other) o2 where "zone_offset z (l - o1 * 60000) = o2" "o2 \<noteq> o1"
      "zone_offset z (l - o2 * 60000) = o2" "t' = l - o2 * 60000" "o' = o2"
  | (hole) o2 o3 where "zone_offset z (l - o1 * 60000) = o2" "o2 \<noteq> o1"
      "zone_offset z (l - o2 * 60000) = o3" "o3 \<noteq> o2"
      "t' = l - min o2 o3 * 60000" "o' = max o2 o3"
proof (cases "zone_offset z (l - o1 * 60000) = o1")
  case True
  with assms have "t' = l - o1 * 60000" "o' = o1"
    by (simp_all add: fixOffset_alt)
  with True show thesis by (rule same)
next
  case False
  define o2 where "o2 = zone_offset z (l - o1 * 60000)"
  have o2: "zone_offset z (l - o1 * 60000) = o2" "o2 \<noteq> o1"
    using False by (simp_all add: o2_def)
  show thesis
  proof (cases "zone_offset z (l - o2 * 60000) = o2")
    case True
    from assms o2 True have "t' = l - o2 * 60000" "o' = o2"
      by (simp_all add: fixOffset_alt)
    with o2 True show thesis by (rule other)
  next
    case F2: False
    define o3 where "o3 = zone_offset z (l - o2 * 60000)"
    have o3: "zone_offset z (l - o2 * 60000) = o3" "o3 \<noteq> o2"
      using F2 by (simp_all add: o3_def)
    from assms o2 o3 have "t' = l - min o2 o3 * 60000" "o' = max o2 o3"
      by (simp_all add: fixOffset_alt)
    with o2 o3 show thesis by (rule hole)
  qed
qed



lemma skipped_iff: "skipped z l \<longleftrightarrow> (\<forall>t. local_time z t \<noteq> l)"
proof
  assume "skipped z l"
  then show "\<forall>t. local_time z t \<noteq> l"
    by (auto simp: skipped_def local_time_def zone_offset_def)
next
  assume a: "\<forall>t. local_time z t \<noteq> l"
  from a have "local_time z (l - offset_before z * 60000) \<noteq> l" by blast
  moreover from a have "local_time z (l - offset_after z * 60000) \<noteq> l" by blast
  ultimately show "skipped z l"
    by (simp add: skipped_def local_time_def zone_offset_def split: if_splits)
qed

lemma fixOffset_exact:
  assumes g: "o1 = zone_offset z t" and n: "\<not> skipped z l"
    and f: "fixOffset l o1 z = (t', o')"
  shows "(t' \<le> t) = (l \<le> local_time z t)"
  using f
proof (cases rule: fixOffset_cases)
  case same
  then show ?thesis using g
    by (auto simp add: local_time_def)
next
  case (other o2)
  then show ?thesis using g
    by (simp add: local_time_def zone_offset_def split: if_splits)
next
  case (hole o2 o3)
  then show ?thesis using g n
    by (simp add: skipped_def local_time_def zone_offset_def min_def max_def split: if_splits)
qed

text \<open>
  The instant that \<open>fixOffset\<close> gives a local time is compared with an instant as the
  local times are, a skipped local time counting as its image after the clock change.
\<close>

lemma fixOffset_moved:
  assumes g: "o1 = zone_offset z t" and f: "fixOffset l o1 z = (t', o')"
  shows "(t' \<le> t) =
     (if skipped z l then l + (offset_after z - offset_before z) * 60000 \<le> local_time z t
      else l \<le> local_time z t)"
  using f
proof (cases rule: fixOffset_cases)
  case same
  then show ?thesis using g
    by (auto simp add: skipped_def local_time_def zone_offset_def split: if_splits)
next
  case (other o2)
  then show ?thesis using g
    by (simp add: skipped_def local_time_def zone_offset_def split: if_splits)
next
  case (hole o2 o3)
  then show ?thesis using g
    by (auto simp add: skipped_def local_time_def zone_offset_def min_def max_def algebra_simps
        split: if_splits)
qed

lemma fixOffset_not_behind:
  assumes g: "o1 = zone_offset z t" and n: "\<not> behind_skipped z t l"
    and f: "fixOffset l o1 z = (t', o')"
  shows "(t' \<le> t) = (l \<le> local_time z t)"
proof (cases "skipped z l")
  case True
  then have "0 < (offset_after z - offset_before z) * 60000"
    by (simp add: skipped_def algebra_simps)
  with True n show ?thesis
    unfolding fixOffset_moved [OF g f] by (auto simp: behind_skipped_def)
next
  case False
  then show ?thesis
    unfolding fixOffset_moved [OF g f] by simp
qed

lemma local_ts_setZone: "local_ts (setZone t z) = local_time z t"
  by (simp add: local_ts_def setZone_def local_time_def)

lemma weekday_setZone: "weekday (setZone t z) = local_weekday z t"
  by (simp add: weekday_def local_weekday_def local_ts_setZone)

lemma set_hms_setZone:
  "set_hms (setZone t z) h m 0 =
     (case fixOffset (boundary z t h m) (zone_offset z t) z of
        (ts, o1) \<Rightarrow> \<lparr>dt_ts = ts, dt_o = o1, dt_zone = z\<rparr>)"
proof -
  have e: "(local_ts (setZone t z) div 86400000) * 86400000 + h * 3600000 + m * 60000
           + 0 * 1000 + local_ts (setZone t z) mod 1000 = boundary z t h m"
    by (simp add: boundary_def wall_clock_def local_ts_setZone algebra_simps)
  show ?thesis
    unfolding set_hms_def Let_def e by (simp add: setZone_def)
qed

lemma floor_1000_le:
  fixes k q r :: int
  assumes "0 \<le> r" "r < 1000"
  shows "(k * 60000 + r \<le> q * 1000 + r) = (k * 60000 \<le> q * 1000 + r)"
proof (cases "k * 60 \<le> q")
  case True
  with assms show ?thesis by linarith
next
  case False
  then have "q + 1 \<le> k * 60" by simp
  with assms show ?thesis by linarith
qed

lemma boundary_le:
  "(boundary z t h m \<le> local_time z t) = (wall_clock h m \<le> time_of_day z t)"
proof -
  define l where "l = local_time z t"
  define k where "k = h * 60 + m"
  define q where "q = (l mod 86400000) div 1000"
  define d where "d = l div 86400000"
  define r where "r = l mod 1000"
  have r: "0 \<le> r" "r < 1000" by (simp_all add: r_def)
  have "(l mod 86400000) mod 1000 = r"
    by (simp add: mod_mod_cancel r_def)
  then have x: "l mod 86400000 = q * 1000 + r"
    using div_mult_mod_eq [of "l mod 86400000" 1000] by (simp add: q_def)
  have l: "l = d * 86400000 + (q * 1000 + r)"
    using div_mult_mod_eq [of l 86400000] by (simp add: d_def x)
  have "(d * 86400000 + k * 60000 + r \<le> l) = (k * 60000 + r \<le> q * 1000 + r)"
    using l by linarith
  also have "\<dots> = (k * 60000 \<le> q * 1000 + r)"
    using r by (rule floor_1000_le)
  finally show ?thesis
    by (simp add: boundary_def wall_clock_def time_of_day_def l_def [symmetric]
        k_def [symmetric] d_def [symmetric] r_def [symmetric] x)
qed

lemma setZone_fields:
  "dt_ts (setZone t z) = t" "dt_o (setZone t z) = zone_offset z t" "dt_zone (setZone t z) = z"
  by (simp_all add: setZone_def)

lemma isWithinCallingHours_numeric:
  assumes "startHour v = Some sh" "startMinute v = Some sm"
    and "endHour v = Some eh" "endMinute v = Some em"
  shows "isWithinCallingHours v t z =
     Inr (array_includes (businessDays v) (local_weekday z t)
          \<and> fst (fixOffset (boundary z t sh sm) (zone_offset z t) z) \<le> t
          \<and> t < fst (fixOffset (boundary z t eh em) (zone_offset z t) z))"
  using assms
  by (simp add: isWithinCallingHours_def Let_def set_hour_minute_def weekday_setZone
      set_hms_setZone split_beta setZone_fields)






lemma getNextValidCallingTime_within:
  "isWithinCallingHours v t z = Inr True \<Longrightarrow> getNextValidCallingTime v t z = Inr t"
  by (simp add: getNextValidCallingTime_def setZone_fields)

lemma isWithinCallingHours_returns:
  assumes "startHour v = Some sh" "startMinute v = Some sm"
    and "endHour v = Some eh" "endMinute v = Some em"
  shows "\<exists>b. isWithinCallingHours v t z = Inr b"
  using isWithinCallingHours_numeric [OF assms] by simp

lemma getNextValidCallingTime_returns:
  assumes "startHour v = Some sh" "startMinute v = Some sm"
    and "endHour v = Some eh" "endMinute v = Some em"
  shows "\<exists>t'. getNextValidCallingTime v t z = Inr t'"
proof -
  obtain b where w: "isWithinCallingHours v t z = Inr b"
    using isWithinCallingHours_returns [OF assms] by blast
  then show ?thesis using assms(1,2)
    by (cases b)
      (simp_all add: getNextValidCallingTime_def Let_def set_hour_minute_def setZone_fields)
qed

lemma delays_for_inherited:
  "endedReason \<in> set Object_prototype_names \<Longrightarrow> delays_for endedReason = Some Inherited"
proof -
  have "list_all (\<lambda>name. js_get RETRY_DELAYS name = None) Object_prototype_names"
    by (simp add: Object_prototype_names_def js_get_def RETRY_DELAYS_def)
  then show "endedReason \<in> set Object_prototype_names
      \<Longrightarrow> delays_for endedReason = Some Inherited"
    by (auto simp: list_all_iff delays_for_def)
qed

lemma delays_for_table:
  "endedReason \<notin> set Object_prototype_names
   \<Longrightarrow> \<exists>delays. delays_for endedReason = Some (Delays delays)
         \<and> delays \<in> set (map snd RETRY_DELAYS)"
  by (auto simp: delays_for_def js_get_def RETRY_DELAYS_def)

lemma delays_for_defined: "\<exists>delays. delays_for endedReason = Some delays"
  using delays_for_inherited [of endedReason] delays_for_table [of endedReason] by blast

lemma delays_nonempty: "delays \<in> set (map snd RETRY_DELAYS) \<Longrightarrow> delays \<noteq> []"
  by (auto simp: RETRY_DELAYS_def)


lemma delay_at_out_of_range:
  "delays \<noteq> [] \<Longrightarrow> i < 0 \<or> int (length delays) \<le> i \<Longrightarrow> delay_at delays i = Some (last delays)"
  by (auto simp: delay_at_def js_index_def last_conv_nth nat_diff_distrib')



lemma calculateDelayWithinHours_returns:
  assumes "startHour v = Some sh" "startMinute v = Some sm"
    and "endHour v = Some eh" "endMinute v = Some em"
  shows "\<exists>r. calculateDelayWithinHours v now delayMinutes z = Inr r"
proof -
  define target where "target = dt_ts (plus_minutes (setZone now z) delayMinutes)"
  obtain b where w: "isWithinCallingHours v target z = Inr b"
    using isWithinCallingHours_returns [OF assms] by blast
  obtain t' where n: "getNextValidCallingTime v target z = Inr t'"
    using getNextValidCallingTime_returns [OF assms] by blast
  show ?thesis
    using w n unfolding calculateDelayWithinHours_def Let_def target_def [symmetric]
    by (cases b) simp_all
qed


lemma isWithinCallingHours_exact:
  assumes "startHour v = Some sh" "startMinute v = Some sm"
    and "endHour v = Some eh" "endMinute v = Some em"
    and "\<not> skipped z (boundary z t sh sm)" and "\<not> skipped z (boundary z t eh em)"
  shows "isWithinCallingHours v t z =
     Inr (array_includes (businessDays v) (local_weekday z t)
          \<and> wall_clock sh sm \<le> time_of_day z t \<and> time_of_day z t < wall_clock eh em)"
proof -
  obtain ts os where s: "fixOffset (boundary z t sh sm) (zone_offset z t) z = (ts, os)"
    by (cases "fixOffset (boundary z t sh sm) (zone_offset z t) z")
  obtain te oe where e: "fixOffset (boundary z t eh em) (zone_offset z t) z = (te, oe)"
    by (cases "fixOffset (boundary z t eh em) (zone_offset z t) z")
  have "(ts \<le> t) = (wall_clock sh sm \<le> time_of_day z t)"
    using fixOffset_exact [OF refl assms(5) s] by (simp add: boundary_le)
  moreover have "(t < te) = (time_of_day z t < wall_clock eh em)"
    using fixOffset_exact [OF refl assms(6) e] boundary_le [of z t eh em] by auto
  ultimately show ?thesis
    using isWithinCallingHours_numeric [OF assms(1-4), of t z] s e by simp
qed

lemma isWithinCallingHours_not_behind:
  assumes "startHour v = Some sh" "startMinute v = Some sm"
    and "endHour v = Some eh" "endMinute v = Some em"
    and "\<not> behind_skipped z t (boundary z t sh sm)"
    and "\<not> behind_skipped z t (boundary z t eh em)"
  shows "isWithinCallingHours v t z =
     Inr (array_includes (businessDays v) (local_weekday z t)
          \<and> wall_clock sh sm \<le> time_of_day z t \<and> time_of_day z t < wall_clock eh em)"
proof -
  obtain ts os where s: "fixOffset (boundary z t sh sm) (zone_offset z t) z = (ts, os)"
    by (cases "fixOffset (boundary z t sh sm) (zone_offset z t) z")
  obtain te oe where e: "fixOffset (boundary z t eh em) (zone_offset z t) z = (te, oe)"
    by (cases "fixOffset (boundary z t eh em) (zone_offset z t) z")
  have "(ts \<le> t) = (wall_clock sh sm \<le> time_of_day z t)"
    using fixOffset_not_behind [OF refl assms(5) s] by (simp add: boundary_le)
  moreover have "(t < te) = (time_of_day z t < wall_clock eh em)"
    using fixOffset_not_behind [OF refl assms(6) e] boundary_le [of z t eh em] by auto
  ultimately show ?thesis
    using isWithinCallingHours_numeric [OF assms(1-4), of t z] s e by simp
qed

lemma local_weekday_range: "1 \<le> local_weekday z t \<and> local_weekday z t \<le> 7"
proof -
  have "0 \<le> (local_time z t div 86400000 + 3) mod 7"
    and "(local_time z t div 86400000 + 3) mod 7 < 7"
    by simp_all
  then show ?thesis by (simp add: local_weekday_def)
qed

lemma no_weekday_never_included: "no_weekday v \<Longrightarrow> \<not> array_includes (businessDays v) (local_weekday z t)"
  using local_weekday_range [of z t]
  by (auto simp: no_weekday_def array_includes_def list_all_iff)


section \<open>Facts about the retry calculator\<close>

lemma calculateRetry_exhausted:
  assumes "opt_currentAttempts options = Some n" and "MAX_ATTEMPTS \<le> n"
  shows "calculateRetry d zones v now options
         = Inr (NoRetry ''max_attempts_reached'' n MAX_ATTEMPTS ''send_sms_fallback'')"
  using assms by (simp add: calculateRetry_def Let_def)

lemma calculateRetry_retries:
  assumes num: "startHour v = Some sh" "startMinute v = Some sm"
      "endHour v = Some eh" "endMinute v = Some em"
    and z: "zones (timezone_arg (js_or (opt_timezone options)
                (detectTimezone d (opt_phoneNumber options)))) = Some tz"
    and n: "(case opt_currentAttempts options of None \<Rightarrow> 0 | Some n \<Rightarrow> n) = n" "n < MAX_ATTEMPTS"
  shows "\<exists>delays r.
           delays_for (opt_endedReason options) = Some delays
         \<and> calculateDelayWithinHours v now (delayMinutes_of delays n) tz = Inr r
         \<and> calculateRetry d zones v now options
             = Inr (Retry (n + 1) MAX_ATTEMPTS (delayMinutes_of delays n) (adjustedDelay r)
                     (adjustedTime r)
                     (js_or (opt_timezone options) (detectTimezone d (opt_phoneNumber options)))
                     (\<not> withinHours r) (opt_endedReason options))"
proof -
  obtain delays where ds: "delays_for (opt_endedReason options) = Some delays"
    using delays_for_defined by blast
  obtain r where r: "calculateDelayWithinHours v now (delayMinutes_of delays n) tz = Inr r"
    using calculateDelayWithinHours_returns [OF num] by blast
  show ?thesis
    using ds r z n by (simp add: calculateRetry_def Let_def)
qed


section \<open>Timezone resolution by longest dialing prefix\<close>

text \<open>
  Claim C2. \<open>detectTimezone\<close> removes whitespace, hyphens and parentheses from the
  number and then tries the dialing codes from longest to shortest: whenever some code of
  the table starts the cleaned number, the zone returned is that of a code that starts
  the cleaned number and is at least as long as every other code of the table that starts
  it. In particular a cleaned number starting with \<open>+1809\<close> resolves to
  America/Santo_Domingo, and one starting with \<open>+1\<close> but not with \<open>+1809\<close> resolves to
  America/New_York.
\<close>

theorem detectTimezone_longest_prefix:
  "(\<forall>c \<in> set (clean phoneNumber). \<not> is_separator c)
   \<and> (\<forall>p \<in> set (Object_keys TIMEZONE_MAP). prefix p (clean phoneNumber) \<longrightarrow>
        (\<exists>code \<in> set (Object_keys TIMEZONE_MAP).
            prefix code (clean phoneNumber)
          \<and> (\<forall>q \<in> set (Object_keys TIMEZONE_MAP).
                 prefix q (clean phoneNumber) \<longrightarrow> length q \<le> length code)
          \<and> detectTimezone d (Str phoneNumber) = tz_of_code code))
   \<and> (prefix ''+1809'' (clean phoneNumber) \<longrightarrow>
        detectTimezone d (Str phoneNumber) = Str ''America/Santo_Domingo'')
   \<and> (prefix ''+1'' (clean phoneNumber) \<and> \<not> prefix ''+1809'' (clean phoneNumber) \<longrightarrow>
        detectTimezone d (Str phoneNumber) = Str ''America/New_York'')"
proof (intro conjI ballI impI)
  fix c assume "c \<in> set (clean phoneNumber)"
  then show "\<not> is_separator c" by (simp add: clean_def)
next
  fix p assume p: "p \<in> set (Object_keys TIMEZONE_MAP)" "prefix p (clean phoneNumber)"
  then obtain code
    where f: "find (\<lambda>code. prefix code (clean phoneNumber)) sortedCodes = Some code"
      and r: "detectTimezone d (Str phoneNumber) = tz_of_code code"
    using detectTimezone_find by blast
  from f have m: "code \<in> set (Object_keys TIMEZONE_MAP)" "prefix code (clean phoneNumber)"
    using find_in_set [OF f] by (simp_all add: set_sortedCodes)
  have "\<forall>q \<in> set (Object_keys TIMEZONE_MAP).
          prefix q (clean phoneNumber) \<longrightarrow> length q \<le> length code"
    using find_longest [OF sorted_sortedCodes f] by (simp add: set_sortedCodes)
  with m r show "\<exists>code \<in> set (Object_keys TIMEZONE_MAP).
            prefix code (clean phoneNumber)
          \<and> (\<forall>q \<in> set (Object_keys TIMEZONE_MAP).
                 prefix q (clean phoneNumber) \<longrightarrow> length q \<le> length code)
          \<and> detectTimezone d (Str phoneNumber) = tz_of_code code"
    by blast
next
  assume p: "prefix ''+1809'' (clean phoneNumber)"
  then obtain code
    where f: "find (\<lambda>code. prefix code (clean phoneNumber)) sortedCodes = Some code"
      and r: "detectTimezone d (Str phoneNumber) = tz_of_code code"
    using detectTimezone_find [OF key_1809] by blast
  from f have m: "code \<in> set (Object_keys TIMEZONE_MAP)"
    using find_in_set [OF f] by (simp add: set_sortedCodes)
  have "length ''+1809'' \<le> length code"
    using find_longest [OF sorted_sortedCodes f, of "''+1809''"] key_1809 p
    by (simp add: set_sortedCodes)
  then have "code = ''+1809''"
    using keys_length_5 [OF m] by simp
  with r show "detectTimezone d (Str phoneNumber) = Str ''America/Santo_Domingo''"
    by (simp add: tz_of_code_1809)
next
  assume "prefix ''+1'' (clean phoneNumber) \<and> \<not> prefix ''+1809'' (clean phoneNumber)"
  then have p: "prefix ''+1'' (clean phoneNumber)"
    and n: "\<not> prefix ''+1809'' (clean phoneNumber)" by simp_all
  from p obtain code
    where f: "find (\<lambda>code. prefix code (clean phoneNumber)) sortedCodes = Some code"
      and r: "detectTimezone d (Str phoneNumber) = tz_of_code code"
    using detectTimezone_find [OF key_1] by blast
  from f have m: "code \<in> set (Object_keys TIMEZONE_MAP)" "prefix code (clean phoneNumber)"
    using find_in_set [OF f] by (simp_all add: set_sortedCodes)
  from m(2) p have "prefix code ''+1'' \<or> prefix ''+1'' code"
    using prefix_same_cases by blast
  then have "code = ''+1'' \<or> code = ''+1809''"
    using keys_comparable_with_1 [OF m(1)] by simp
  with m(2) n have "code = ''+1''" by auto
  with r show "detectTimezone d (Str phoneNumber) = Str ''America/New_York''"
    by (simp add: tz_of_code_1)
qed

theorem detectTimezone_longest_prefix_witness:
  "prefix ''+1809'' (clean ''+1 (809) 555-1234'')
   \<and> detectTimezone Undefined (Str ''+1 (809) 555-1234'') = Str ''America/Santo_Domingo''
   \<and> prefix ''+1'' (clean ''+1 212-555-1234'') \<and> \<not> prefix ''+1809'' (clean ''+1 212-555-1234'')
   \<and> detectTimezone Undefined (Str ''+1 212-555-1234'') = Str ''America/New_York''"
proof -
  have a: "prefix ''+1809'' (clean ''+1 (809) 555-1234'')"
    by (simp add: clean_def is_separator_def is_space_def)
  have b: "prefix ''+1'' (clean ''+1 212-555-1234'') \<and> \<not> prefix ''+1809'' (clean ''+1 212-555-1234'')"
    by (simp add: clean_def is_separator_def is_space_def)
  show ?thesis
    using a b detectTimezone_longest_prefix [of "''+1 (809) 555-1234''" Undefined]
      detectTimezone_longest_prefix [of "''+1 212-555-1234''" Undefined]
    by blast
qed

text \<open>
  Claim C10. For a missing (\<^verbatim>\<open>undefined\<close>), \<^verbatim>\<open>null\<close> or empty phone number,
  \<open>detectTimezone\<close> returns the configured default zone, which is Europe/London when
  \<^verbatim>\<open>DEFAULT_TIMEZONE\<close> is unset, and \<open>getCountryCode\<close> returns \<^verbatim>\<open>null\<close>; neither
  has an error outcome.
\<close>

theorem detectTimezone_absent_input:
  "\<not> truthy phoneNumber \<Longrightarrow>
     detectTimezone d phoneNumber = default_timezone d
   \<and> detectTimezone Undefined phoneNumber = Str ''Europe/London''
   \<and> getCountryCode phoneNumber = Null"
  by (cases phoneNumber) (simp_all add: default_timezone_def js_or_def)

theorem detectTimezone_absent_input_witness:
  "\<not> truthy Undefined \<and> \<not> truthy Null \<and> \<not> truthy (Str '''')
   \<and> detectTimezone (Str ''Asia/Kabul'') Null = Str ''Asia/Kabul''
   \<and> detectTimezone Undefined Undefined = Str ''Europe/London''
   \<and> detectTimezone Undefined (Str '''') = Str ''Europe/London''
   \<and> getCountryCode Undefined = Null \<and> getCountryCode Null = Null
   \<and> getCountryCode (Str '''') = Null"
  using detectTimezone_absent_input [of Undefined Undefined]
    detectTimezone_absent_input [of Null "Str ''Asia/Kabul''"]
    detectTimezone_absent_input [of "Str ''''" Undefined]
  by (simp add: default_timezone_def js_or_def)

section \<open>Delay clamping\<close>




section \<open>The calling window\<close>

text \<open>
  Claim C5, as the specification states it: \<open>isWithinCallingHours\<close> answers true exactly
  when the local weekday is a business day and the local time of day lies in
  \<open>[start, end)\<close>. This fails when a clock change skips the configured start time: on
  Sunday 10 March 2024 in a zone that moves from UTC-5 to UTC-4 at 07:00 UTC (local 02:00
  becomes 03:00), with the window 02:30-19:00 on every weekday, the instant 07:10 UTC is
  local 03:10, a business day and inside the window, but the start boundary 02:30 is a
  skipped local time, it is moved to local 03:30, and the answer is false: the instant
  lies behind the skipped start.
\<close>

theorem isWithinCallingHours_window_counterexample:
  "isWithinCallingHours
      \<lparr>startHour = Some 2, startMinute = Some 30, endHour = Some 19, endMinute = Some 0,
       businessDays = [Some 1, Some 2, Some 3, Some 4, Some 5, Some 6, Some 7]\<rparr>
      1710054600000
      \<lparr>offset_before = - 300, change_at = 1710054000000, offset_after = - 240\<rparr> = Inr False
   \<and> array_includes [Some 1, Some 2, Some 3, Some 4, Some 5, Some 6, Some 7]
        (local_weekday \<lparr>offset_before = - 300, change_at = 1710054000000, offset_after = - 240\<rparr>
           1710054600000)
   \<and> wall_clock 2 30
       \<le> time_of_day \<lparr>offset_before = - 300, change_at = 1710054000000, offset_after = - 240\<rparr>
            1710054600000
   \<and> time_of_day \<lparr>offset_before = - 300, change_at = 1710054000000, offset_after = - 240\<rparr>
        1710054600000 < wall_clock 19 0
   \<and> behind_skipped \<lparr>offset_before = - 300, change_at = 1710054000000, offset_after = - 240\<rparr>
        1710054600000
        (boundary \<lparr>offset_before = - 300, change_at = 1710054000000, offset_after = - 240\<rparr>
           1710054600000 2 30)"
  by (simp add: isWithinCallingHours_def Let_def set_hour_minute_def set_hms_def setZone_def
      fixOffset_def zone_offset_def local_ts_def weekday_def array_includes_def local_weekday_def
      local_time_def time_of_day_def wall_clock_def skipped_def boundary_def behind_skipped_def)

text \<open>
  Claim C5, amended: with numeric window fields, \<open>isWithinCallingHours\<close> answers true if
  and only if the instant's local weekday is in \<open>businessDays\<close> and its local time of
  day lies in \<open>[start, end)\<close>, start included and end excluded, for every instant and
  zone except an instant that lies behind a skipped boundary: the start or end time of
  its local day is skipped by a clock change, and the instant's local time is at or after
  that time and before the time to which the clock change moves it.
\<close>

theorem isWithinCallingHours_window:
  assumes "startHour v = Some sh" "startMinute v = Some sm"
    and "endHour v = Some eh" "endMinute v = Some em"
    and "\<not> behind_skipped z t (boundary z t sh sm)"
    and "\<not> behind_skipped z t (boundary z t eh em)"
  shows "isWithinCallingHours v t z =
     Inr (array_includes (businessDays v) (local_weekday z t)
          \<and> wall_clock sh sm \<le> time_of_day z t \<and> time_of_day z t < wall_clock eh em)"
  using assms by (rule isWithinCallingHours_not_behind)

text \<open>
  Witness: the window 02:30-19:00 on every weekday, on the Sunday of the counterexample,
  whose start time is skipped. At 07:30 UTC (local 03:30, the moved start) and at 16:00
  UTC (local noon) the instant is not behind the skipped start and the answer is true; at
  23:00 UTC (local 19:00) the answer is false.
\<close>

theorem isWithinCallingHours_window_witness:
  "skipped \<lparr>offset_before = - 300, change_at = 1710054000000, offset_after = - 240\<rparr>
       (boundary \<lparr>offset_before = - 300, change_at = 1710054000000, offset_after = - 240\<rparr>
          1710086400000 2 30)
   \<and> \<not> behind_skipped \<lparr>offset_before = - 300, change_at = 1710054000000, offset_after = - 240\<rparr>
       1710086400000
       (boundary \<lparr>offset_before = - 300, change_at = 1710054000000, offset_after = - 240\<rparr>
          1710086400000 2 30)
   \<and> \<not> behind_skipped \<lparr>offset_before = - 300, change_at = 1710054000000, offset_after = - 240\<rparr>
       1710086400000
       (boundary \<lparr>offset_before = - 300, change_at = 1710054000000, offset_after = - 240\<rparr>
          1710086400000 19 0)
   \<and> isWithinCallingHours
        \<lparr>startHour = Some 2, startMinute = Some 30, endHour = Some 19, endMinute = Some 0,
         businessDays = [Some 1, Some 2, Some 3, Some 4, Some 5, Some 6, Some 7]\<rparr>
        1710086400000
        \<lparr>offset_before = - 300, change_at = 1710054000000, offset_after = - 240\<rparr> = Inr True
   \<and> isWithinCallingHours
        \<lparr>startHour = Some 2, startMinute = Some 30, endHour = Some 19, endMinute = Some 0,
         businessDays = [Some 1, Some 2, Some 3, Some 4, Some 5, Some 6, Some 7]\<rparr>
        1710055800000
        \<lparr>offset_before = - 300, change_at = 1710054000000, offset_after = - 240\<rparr> = Inr True
   \<and> isWithinCallingHours
        \<lparr>startHour = Some 2, startMinute = Some 30, endHour = Some 19, endMinute = Some 0,
         businessDays = [Some 1, Some 2, Some 3, Some 4, Some 5, Some 6, Some 7]\<rparr>
        1710111600000
        \<lparr>offset_before = - 300, change_at = 1710054000000, offset_after = - 240\<rparr> = Inr False"
proof -
  let ?z = "\<lparr>offset_before = - 300, change_at = 1710054000000, offset_after = - 240\<rparr>"
  let ?v = "\<lparr>startHour = Some 2, startMinute = Some 30, endHour = Some 19, endMinute = Some 0,
         businessDays = [Some 1, Some 2, Some 3, Some 4, Some 5, Some 6, Some 7]\<rparr>"
  have k: "skipped ?z (boundary ?z 1710086400000 2 30)"
    by (simp add: skipped_def boundary_def local_time_def zone_offset_def wall_clock_def)
  have a: "\<not> behind_skipped ?z 1710086400000 (boundary ?z 1710086400000 2 30)"
    and b: "\<not> behind_skipped ?z 1710086400000 (boundary ?z 1710086400000 19 0)"
    and c: "\<not> behind_skipped ?z 1710055800000 (boundary ?z 1710055800000 2 30)"
    and d: "\<not> behind_skipped ?z 1710055800000 (boundary ?z 1710055800000 19 0)"
    and e: "\<not> behind_skipped ?z 1710111600000 (boundary ?z 1710111600000 2 30)"
    and f: "\<not> behind_skipped ?z 1710111600000 (boundary ?z 1710111600000 19 0)"
    by (simp_all add: behind_skipped_def skipped_def boundary_def local_time_def
        zone_offset_def wall_clock_def)
  have "isWithinCallingHours ?v 1710086400000 ?z = Inr True"
    using isWithinCallingHours_window [of ?v 2 30 19 0 ?z 1710086400000, OF _ _ _ _ a b]
    by (simp add: array_includes_def local_weekday_def time_of_day_def local_time_def
        zone_offset_def wall_clock_def)
  moreover have "isWithinCallingHours ?v 1710055800000 ?z = Inr True"
    using isWithinCallingHours_window [of ?v 2 30 19 0 ?z 1710055800000, OF _ _ _ _ c d]
    by (simp add: array_includes_def local_weekday_def time_of_day_def local_time_def
        zone_offset_def wall_clock_def)
  moreover have "isWithinCallingHours ?v 1710111600000 ?z = Inr False"
    using isWithinCallingHours_window [of ?v 2 30 19 0 ?z 1710111600000, OF _ _ _ _ e f]
    by (simp add: array_includes_def local_weekday_def time_of_day_def local_time_def
        zone_offset_def wall_clock_def)
  ultimately show ?thesis using k a b by simp
qed

section \<open>The next callable instant\<close>

text \<open>
  Claim C6 (idempotence). For every instant and zone for which \<open>isWithinCallingHours\<close>
  answers true, \<open>getNextValidCallingTime\<close> returns exactly that instant.
\<close>

theorem getNextValidCallingTime_idempotent:
  "isWithinCallingHours v t z = Inr True \<Longrightarrow> getNextValidCallingTime v t z = Inr t"
  by (rule getNextValidCallingTime_within)

theorem getNextValidCallingTime_idempotent_witness:
  "isWithinCallingHours
      \<lparr>startHour = Some 9, startMinute = Some 0, endHour = Some 19, endMinute = Some 0,
       businessDays = [Some 1, Some 2, Some 3, Some 4, Some 5]\<rparr>
      1705312800000 \<lparr>offset_before = 0, change_at = 0, offset_after = 0\<rparr> = Inr True
   \<and> getNextValidCallingTime
      \<lparr>startHour = Some 9, startMinute = Some 0, endHour = Some 19, endMinute = Some 0,
       businessDays = [Some 1, Some 2, Some 3, Some 4, Some 5]\<rparr>
      1705312800000 \<lparr>offset_before = 0, change_at = 0, offset_after = 0\<rparr> = Inr 1705312800000"
proof -
  have w: "isWithinCallingHours
      \<lparr>startHour = Some 9, startMinute = Some 0, endHour = Some 19, endMinute = Some 0,
       businessDays = [Some 1, Some 2, Some 3, Some 4, Some 5]\<rparr>
      1705312800000 \<lparr>offset_before = 0, change_at = 0, offset_after = 0\<rparr> = Inr True"
    by code_simp
  from w getNextValidCallingTime_idempotent [OF w] show ?thesis by simp
qed



section \<open>Retry decisions\<close>

text \<open>
  Claim C1, as the specification states it: every event with \<open>MAX_ATTEMPTS - 1\<close> attempts
  gets a retry decision. This fails for an event whose timezone the zone database does
  not know, and the code's own table produces such events: a number starting with
  \<open>+383\<close> resolves to \<open>Europe/Pristina\<close>, which is not a zone of the IANA database
  (here a database that knows Europe/London and Europe/Belgrade). The next call time is
  then an invalid date and \<^verbatim>\<open>adjustedTime.toISOString()\<close> raises a \<^verbatim>\<open>RangeError\<close>.
\<close>

theorem calculateRetry_exhaustion_boundary_counterexample:
  "detectTimezone Undefined (Str ''+38344123456'') = Str ''Europe/Pristina''
   \<and> calculateRetry Undefined
       (\<lambda>tz. if tz = Str ''Europe/London''
             then Some \<lparr>offset_before = 0, change_at = 0, offset_after = 0\<rparr>
             else if tz = Str ''Europe/Belgrade''
             then Some \<lparr>offset_before = 60, change_at = 0, offset_after = 60\<rparr>
             else None)
       \<lparr>startHour = Some 9, startMinute = Some 0, endHour = Some 19, endMinute = Some 0,
        businessDays = [Some 1, Some 2, Some 3, Some 4, Some 5]\<rparr>
       1705084200000
       \<lparr>opt_endedReason = ''customer-did-not-answer'', opt_currentAttempts = Some 2,
        opt_phoneNumber = Str ''+38344123456'', opt_timezone = Undefined\<rparr>
     = Inl RangeError"
  by (simp add: detectTimezone_383 calculateRetry_def Let_def js_or_def MAX_ATTEMPTS_def
      delays_for_def js_get_def RETRY_DELAYS_def timezone_arg_def del: detectTimezone.simps)

text \<open>
  Claim C1, amended. \<open>MAX_ATTEMPTS\<close> is 3. For every event whose attempt count is
  \<open>MAX_ATTEMPTS - 1\<close> and whose timezone (the explicit one, or the one resolved from the
  phone number) is a zone that the zone database knows, with numeric window fields,
  \<open>calculateRetry\<close> returns a retry decision, for the attempt number \<open>MAX_ATTEMPTS\<close>.
  For every event whose attempt count is \<open>MAX_ATTEMPTS\<close> or more, whatever the end
  reason, phone number, timezone, configuration and clock, it returns the exhausted
  decision carrying that attempt count and the fallback action \<open>send_sms_fallback\<close>.
\<close>

theorem calculateRetry_exhaustion_boundary:
  "MAX_ATTEMPTS = 3
   \<and> (startHour v \<noteq> None \<and> startMinute v \<noteq> None \<and> endHour v \<noteq> None \<and> endMinute v \<noteq> None
      \<and> zones (timezone_arg (js_or (opt_timezone options)
                  (detectTimezone d (opt_phoneNumber options)))) \<noteq> None
      \<and> opt_currentAttempts options = Some (MAX_ATTEMPTS - 1)
      \<longrightarrow> (\<exists>r. calculateRetry d zones v now options = Inr r \<and> shouldRetry r
                \<and> ri_attempts r = MAX_ATTEMPTS))
   \<and> (\<forall>n \<ge> MAX_ATTEMPTS. opt_currentAttempts options = Some n \<longrightarrow>
        calculateRetry d zones v now options
        = Inr (NoRetry ''max_attempts_reached'' n MAX_ATTEMPTS ''send_sms_fallback''))"
proof (intro conjI impI allI)
  show "MAX_ATTEMPTS = 3" by (simp add: MAX_ATTEMPTS_def)
next
  assume a: "startHour v \<noteq> None \<and> startMinute v \<noteq> None \<and> endHour v \<noteq> None
      \<and> endMinute v \<noteq> None
      \<and> zones (timezone_arg (js_or (opt_timezone options)
                  (detectTimezone d (opt_phoneNumber options)))) \<noteq> None
      \<and> opt_currentAttempts options = Some (MAX_ATTEMPTS - 1)"
  then obtain sh sm eh em tz where num: "startHour v = Some sh" "startMinute v = Some sm"
      "endHour v = Some eh" "endMinute v = Some em"
    and z: "zones (timezone_arg (js_or (opt_timezone options)
                (detectTimezone d (opt_phoneNumber options)))) = Some tz"
    by auto
  from a have n: "(case opt_currentAttempts options of None \<Rightarrow> 0 | Some n \<Rightarrow> n)
      = MAX_ATTEMPTS - 1" "MAX_ATTEMPTS - 1 < MAX_ATTEMPTS"
    by simp_all
  from calculateRetry_retries
    [where v = v and zones = zones and options = options and d = d and now = now,
     OF num z n]
  show "\<exists>r. calculateRetry d zones v now options = Inr r \<and> shouldRetry r
                \<and> ri_attempts r = MAX_ATTEMPTS"
    by auto
next
  fix n assume "MAX_ATTEMPTS \<le> n" "opt_currentAttempts options = Some n"
  then show "calculateRetry d zones v now options
        = Inr (NoRetry ''max_attempts_reached'' n MAX_ATTEMPTS ''send_sms_fallback'')"
    using calculateRetry_exhausted by simp
qed

text \<open>
  Witness: a third call that was not answered on Friday 12 January 2024 at 18:30 UTC, in
  the London zone; after two attempts the call is retried, after three or seven it is
  not.
\<close>

theorem calculateRetry_exhaustion_boundary_witness:
  "shouldRetry (projr (calculateRetry Undefined
       (\<lambda>tz. if tz = Str ''Europe/London''
             then Some \<lparr>offset_before = 0, change_at = 0, offset_after = 0\<rparr> else None)
       \<lparr>startHour = Some 9, startMinute = Some 0, endHour = Some 19, endMinute = Some 0,
        businessDays = [Some 1, Some 2, Some 3, Some 4, Some 5]\<rparr>
       1705084200000
       \<lparr>opt_endedReason = ''customer-did-not-answer'', opt_currentAttempts = Some 2,
        opt_phoneNumber = Undefined, opt_timezone = Str ''Europe/London''\<rparr>))
   \<and> (3::int) \<ge> MAX_ATTEMPTS \<and> (7::int) \<ge> MAX_ATTEMPTS
   \<and> calculateRetry Undefined (\<lambda>tz. None)
       \<lparr>startHour = None, startMinute = None, endHour = None, endMinute = None,
        businessDays = []\<rparr>
       1705084200000
       \<lparr>opt_endedReason = ''customer-busy'', opt_currentAttempts = Some 3,
        opt_phoneNumber = Null, opt_timezone = Undefined\<rparr>
     = Inr (NoRetry ''max_attempts_reached'' 3 3 ''send_sms_fallback'')
   \<and> calculateRetry Undefined (\<lambda>tz. None)
       \<lparr>startHour = None, startMinute = None, endHour = None, endMinute = None,
        businessDays = []\<rparr>
       1705084200000
       \<lparr>opt_endedReason = ''carrier-dropped'', opt_currentAttempts = Some 7,
        opt_phoneNumber = Null, opt_timezone = Undefined\<rparr>
     = Inr (NoRetry ''max_attempts_reached'' 7 3 ''send_sms_fallback'')"
proof -
  let ?zones = "\<lambda>tz. if tz = Str ''Europe/London''
             then Some \<lparr>offset_before = 0, change_at = 0, offset_after = 0\<rparr> else None"
  let ?v = "\<lparr>startHour = Some 9, startMinute = Some 0, endHour = Some 19, endMinute = Some 0,
        businessDays = [Some 1, Some 2, Some 3, Some 4, Some 5]\<rparr>"
  let ?opts = "\<lparr>opt_endedReason = ''customer-did-not-answer'', opt_currentAttempts = Some 2,
        opt_phoneNumber = Undefined, opt_timezone = Str ''Europe/London''\<rparr>"
  let ?w = "\<lparr>startHour = None, startMinute = None, endHour = None, endMinute = None,
        businessDays = []\<rparr>"
  have m: "MAX_ATTEMPTS = 3" by (simp add: MAX_ATTEMPTS_def)
  have "\<exists>r. calculateRetry Undefined ?zones ?v 1705084200000 ?opts = Inr r \<and> shouldRetry r"
    using calculateRetry_exhaustion_boundary [of ?v ?zones ?opts Undefined 1705084200000]
    by (auto simp add: js_or_def timezone_arg_def m)
  then have a: "shouldRetry (projr (calculateRetry Undefined ?zones ?v 1705084200000 ?opts))"
    by auto
  have b: "calculateRetry Undefined (\<lambda>tz. None) ?w 1705084200000
       \<lparr>opt_endedReason = ''customer-busy'', opt_currentAttempts = Some 3,
        opt_phoneNumber = Null, opt_timezone = Undefined\<rparr>
     = Inr (NoRetry ''max_attempts_reached'' 3 3 ''send_sms_fallback'')"
    using calculateRetry_exhaustion_boundary [of ?w "\<lambda>tz. None"
        "\<lparr>opt_endedReason = ''customer-busy'', opt_currentAttempts = Some 3,
        opt_phoneNumber = Null, opt_timezone = Undefined\<rparr>" Undefined 1705084200000]
    by (simp add: m)
  have c: "calculateRetry Undefined (\<lambda>tz. None) ?w 1705084200000
       \<lparr>opt_endedReason = ''carrier-dropped'', opt_currentAttempts = Some 7,
        opt_phoneNumber = Null, opt_timezone = Undefined\<rparr>
     = Inr (NoRetry ''max_attempts_reached'' 7 3 ''send_sms_fallback'')"
    using calculateRetry_exhaustion_boundary [of ?w "\<lambda>tz. None"
        "\<lparr>opt_endedReason = ''carrier-dropped'', opt_currentAttempts = Some 7,
        opt_phoneNumber = Null, opt_timezone = Undefined\<rparr>" Undefined 1705084200000]
    by (simp add: m)
  from a b c m show ?thesis by simp
qed



text \<open>
  Claim C9, as the specification states it: a strictly negative attempt count is rejected
  as an invalid argument. The code has no such check: for the count \<open>-1\<close> it returns a
  retry decision, for attempt number 0, with the last delay of the reason's schedule.
\<close>

theorem calculateRetry_negative_attempts_counterexample:
  "calculateRetry Undefined
       (\<lambda>tz. if tz = Str ''Europe/London''
             then Some \<lparr>offset_before = 0, change_at = 0, offset_after = 0\<rparr> else None)
       \<lparr>startHour = Some 9, startMinute = Some 0, endHour = Some 19, endMinute = Some 0,
        businessDays = [Some 1, Some 2, Some 3, Some 4, Some 5]\<rparr>
       1705084200000
       \<lparr>opt_endedReason = ''customer-did-not-answer'', opt_currentAttempts = Some (- 1),
        opt_phoneNumber = Undefined, opt_timezone = Str ''Europe/London''\<rparr>
     = Inr (Retry 0 3 (Some 240) (Some 3750) 1705309200000 (Str ''Europe/London'') True
              ''customer-did-not-answer'')"
  by code_simp

text \<open>
  Claim C9, amended: for every event with a strictly negative attempt count (numeric
  window fields, known zone) \<open>calculateRetry\<close> does not reject the input; it returns a
  retry decision whose attempt number is the count plus one and whose nominal delay,
  unless the end reason is an inherited property name, is the last delay of the schedule
  of the end reason.
\<close>

theorem calculateRetry_negative_attempts:
  assumes "startHour v = Some sh" "startMinute v = Some sm"
    and "endHour v = Some eh" "endMinute v = Some em"
    and "zones (timezone_arg (js_or (opt_timezone options)
                (detectTimezone d (opt_phoneNumber options)))) = Some tz"
    and "opt_currentAttempts options = Some n" and "n < 0"
  shows "\<exists>r. calculateRetry d zones v now options = Inr r \<and> shouldRetry r
           \<and> ri_attempts r = n + 1
           \<and> (opt_endedReason options \<notin> set Object_prototype_names \<longrightarrow>
                (\<exists>delays. delays_for (opt_endedReason options) = Some (Delays delays)
                   \<and> ri_originalDelayMinutes r = Some (last delays)))"
proof -
  have n: "(case opt_currentAttempts options of None \<Rightarrow> 0 | Some n \<Rightarrow> n) = n"
    "n < MAX_ATTEMPTS"
    using assms(6,7) by (simp_all add: MAX_ATTEMPTS_def)
  from calculateRetry_retries
    [where v = v and zones = zones and options = options and d = d and now = now,
     OF assms(1-5) n]
  obtain dv and r :: delay_result where
    ds: "delays_for (opt_endedReason options) = Some dv"
    and cr: "calculateRetry d zones v now options
             = Inr (Retry (n + 1) MAX_ATTEMPTS (delayMinutes_of dv n) (adjustedDelay r)
                     (adjustedTime r)
                     (js_or (opt_timezone options) (detectTimezone d (opt_phoneNumber options)))
                     (\<not> withinHours r) (opt_endedReason options))"
    by auto
  have "opt_endedReason options \<notin> set Object_prototype_names \<longrightarrow>
          (\<exists>delays. delays_for (opt_endedReason options) = Some (Delays delays)
             \<and> delayMinutes_of dv n = Some (last delays))"
  proof
    assume "opt_endedReason options \<notin> set Object_prototype_names"
    then obtain delays where d: "delays_for (opt_endedReason options) = Some (Delays delays)"
      and m: "delays \<in> set (map snd RETRY_DELAYS)"
      using delays_for_table by blast
    from m have "delays \<noteq> []" by (rule delays_nonempty)
    then have "delay_at delays n = Some (last delays)"
      using assms(7) by (simp add: delay_at_out_of_range)
    with d ds show "\<exists>delays. delays_for (opt_endedReason options) = Some (Delays delays)
             \<and> delayMinutes_of dv n = Some (last delays)"
      by (auto simp: delayMinutes_of_def)
  qed
  with cr show ?thesis by simp
qed

theorem calculateRetry_negative_attempts_witness:
  "(- 2::int) < 0
   \<and> calculateRetry Undefined
       (\<lambda>tz. if tz = Str ''Europe/London''
             then Some \<lparr>offset_before = 0, change_at = 0, offset_after = 0\<rparr> else None)
       \<lparr>startHour = Some 9, startMinute = Some 0, endHour = Some 19, endMinute = Some 0,
        businessDays = [Some 1, Some 2, Some 3, Some 4, Some 5]\<rparr>
       1705312800000
       \<lparr>opt_endedReason = ''assistant-error'', opt_currentAttempts = Some (- 2),
        opt_phoneNumber = Undefined, opt_timezone = Str ''Europe/London''\<rparr>
     = Inr (Retry (- 1) 3 (Some 30) (Some 30) 1705314600000 (Str ''Europe/London'') False
              ''assistant-error'')"
proof -
  let ?zones = "\<lambda>tz. if tz = Str ''Europe/London''
             then Some \<lparr>offset_before = 0, change_at = 0, offset_after = 0\<rparr> else None"
  let ?v = "\<lparr>startHour = Some 9, startMinute = Some 0, endHour = Some 19, endMinute = Some 0,
        businessDays = [Some 1, Some 2, Some 3, Some 4, Some 5]\<rparr>"
  let ?opts = "\<lparr>opt_endedReason = ''assistant-error'', opt_currentAttempts = Some (- 2),
        opt_phoneNumber = Undefined, opt_timezone = Str ''Europe/London''\<rparr>"
  have z: "?zones (timezone_arg (js_or (opt_timezone ?opts)
                (detectTimezone Undefined (opt_phoneNumber ?opts))))
           = Some \<lparr>offset_before = 0, change_at = 0, offset_after = 0\<rparr>"
    by (simp add: js_or_def timezone_arg_def)
  have e: "calculateRetry Undefined ?zones ?v 1705312800000 ?opts
     = Inr (Retry (- 1) 3 (Some 30) (Some 30) 1705314600000 (Str ''Europe/London'') False
              ''assistant-error'')"
    by code_simp
  from calculateRetry_negative_attempts [of ?v 9 0 19 0 ?zones ?opts Undefined _ "- 2"
      1705312800000, OF _ _ _ _ z]
  have "\<exists>r. calculateRetry Undefined ?zones ?v 1705312800000 ?opts = Inr r \<and> shouldRetry r
           \<and> ri_attempts r = - 2 + 1"
    by auto
  with e show ?thesis by simp
qed

section \<open>Configuration errors\<close>

text \<open>
  Claim C4, as the specification states it: a duplicate dialing prefix, an empty weekday
  set and a window whose start is not before its end are rejected when the table and the
  validator are constructed. The code has no such check. The table literal has two
  entries for \<open>+93\<close> and the table is built all the same; the constructor turns the
  environment \<^verbatim>\<open>BUSINESS_HOURS_START=19:00\<close>, \<^verbatim>\<open>BUSINESS_HOURS_END=09:00\<close>,
  \<^verbatim>\<open>BUSINESS_DAYS=0\<close> into a validator whose window ends before it starts and whose
  weekday list has no weekday.
\<close>

theorem configuration_errors_accepted_counterexample:
  "count_list (map fst TIMEZONE_MAP_literal) ''+93'' = 2
   \<and> js_get TIMEZONE_MAP ''+93'' = Some ''Asia/Kabul''
   \<and> CallingHoursValidator
        \<lparr>BUSINESS_HOURS_START = Some ''19:00'', BUSINESS_HOURS_END = Some ''09:00'',
         BUSINESS_DAYS = Some ''0''\<rparr>
       = \<lparr>startHour = Some 19, startMinute = Some 0, endHour = Some 9, endMinute = Some 0,
          businessDays = [Some 0]\<rparr>
   \<and> malformed_window
        \<lparr>startHour = Some 19, startMinute = Some 0, endHour = Some 9, endMinute = Some 0,
         businessDays = [Some 0]\<rparr>
   \<and> no_weekday
        \<lparr>startHour = Some 19, startMinute = Some 0, endHour = Some 9, endMinute = Some 0,
         businessDays = [Some 0]\<rparr>"
proof -
  have a: "count_list (map fst TIMEZONE_MAP_literal) ''+93'' = 2"
    by code_simp
  have "map_of (rev TIMEZONE_MAP_literal) ''+93'' = Some ''Asia/Kabul''"
    by code_simp
  then have b: "js_get TIMEZONE_MAP ''+93'' = Some ''Asia/Kabul''"
    by (simp add: TIMEZONE_MAP_def js_get_object_literal)
  have c: "CallingHoursValidator
        \<lparr>BUSINESS_HOURS_START = Some ''19:00'', BUSINESS_HOURS_END = Some ''09:00'',
         BUSINESS_DAYS = Some ''0''\<rparr>
       = \<lparr>startHour = Some 19, startMinute = Some 0, endHour = Some 9, endMinute = Some 0,
          businessDays = [Some 0]\<rparr>"
    by code_simp
  have d: "malformed_window
        \<lparr>startHour = Some 19, startMinute = Some 0, endHour = Some 9, endMinute = Some 0,
         businessDays = [Some 0]\<rparr>"
    by (simp add: malformed_window_def wall_clock_def)
  have e: "no_weekday
        \<lparr>startHour = Some 19, startMinute = Some 0, endHour = Some 9, endMinute = Some 0,
         businessDays = [Some 0]\<rparr>"
    by (simp add: no_weekday_def)
  from a b c d e show ?thesis by blast
qed

text \<open>
  Claim C4, amended: configuration errors are not rejected at construction. Reading the
  timezone table gives, for every prefix, the value of the last entry of the literal with
  that prefix. A validator without any weekday number in its weekday list, and a
  validator with a numeric window whose end is not after its start (the two boundaries
  not being skipped by a clock change), are met at run time only: for every instant and
  zone \<open>isWithinCallingHours\<close> answers false.
\<close>

theorem configuration_errors_surface_at_runtime:
  "js_get TIMEZONE_MAP code = map_of (rev TIMEZONE_MAP_literal) code
   \<and> (no_weekday v \<longrightarrow> isWithinCallingHours v t z = Inr False)
   \<and> (startHour v = Some sh \<and> startMinute v = Some sm
      \<and> endHour v = Some eh \<and> endMinute v = Some em
      \<and> wall_clock eh em \<le> wall_clock sh sm
      \<and> \<not> skipped z (boundary z t sh sm) \<and> \<not> skipped z (boundary z t eh em)
      \<longrightarrow> isWithinCallingHours v t z = Inr False)"
proof (intro conjI impI)
  show "js_get TIMEZONE_MAP code = map_of (rev TIMEZONE_MAP_literal) code"
    by (simp add: TIMEZONE_MAP_def js_get_object_literal)
next
  assume "no_weekday v"
  then have "\<not> array_includes (businessDays v) (weekday (setZone t z))"
    using no_weekday_never_included by (simp add: weekday_setZone)
  then show "isWithinCallingHours v t z = Inr False"
    by (simp add: isWithinCallingHours_def Let_def)
next
  assume a: "startHour v = Some sh \<and> startMinute v = Some sm
      \<and> endHour v = Some eh \<and> endMinute v = Some em
      \<and> wall_clock eh em \<le> wall_clock sh sm
      \<and> \<not> skipped z (boundary z t sh sm) \<and> \<not> skipped z (boundary z t eh em)"
  then have "isWithinCallingHours v t z =
     Inr (array_includes (businessDays v) (local_weekday z t)
          \<and> wall_clock sh sm \<le> time_of_day z t \<and> time_of_day z t < wall_clock eh em)"
    using isWithinCallingHours_exact [of v sh sm eh em z t] by simp
  with a show "isWithinCallingHours v t z = Inr False"
    by auto
qed

text \<open>
  Witness: Monday 15 January 2024, 10:00 in London, is not callable for the validator
  built from \<^verbatim>\<open>BUSINESS_DAYS=0\<close>, nor for the window 19:00-09:00 on every weekday.
\<close>

theorem configuration_errors_surface_at_runtime_witness:
  "no_weekday (CallingHoursValidator
        \<lparr>BUSINESS_HOURS_START = None, BUSINESS_HOURS_END = None, BUSINESS_DAYS = Some ''0''\<rparr>)
   \<and> isWithinCallingHours (CallingHoursValidator
        \<lparr>BUSINESS_HOURS_START = None, BUSINESS_HOURS_END = None, BUSINESS_DAYS = Some ''0''\<rparr>)
        1705312800000 \<lparr>offset_before = 0, change_at = 0, offset_after = 0\<rparr> = Inr False
   \<and> wall_clock 9 0 \<le> wall_clock 19 0
   \<and> isWithinCallingHours
        \<lparr>startHour = Some 19, startMinute = Some 0, endHour = Some 9, endMinute = Some 0,
         businessDays = [Some 1, Some 2, Some 3, Some 4, Some 5, Some 6, Some 7]\<rparr>
        1705312800000 \<lparr>offset_before = 0, change_at = 0, offset_after = 0\<rparr> = Inr False"
proof -
  let ?z = "\<lparr>offset_before = 0, change_at = 0, offset_after = 0\<rparr>"
  let ?e = "\<lparr>BUSINESS_HOURS_START = None, BUSINESS_HOURS_END = None, BUSINESS_DAYS = Some ''0''\<rparr>"
  let ?w = "\<lparr>startHour = Some 19, startMinute = Some 0, endHour = Some 9, endMinute = Some 0,
         businessDays = [Some 1, Some 2, Some 3, Some 4, Some 5, Some 6, Some 7]\<rparr>"
  have c: "CallingHoursValidator ?e
       = \<lparr>startHour = Some 9, startMinute = Some 0, endHour = Some 19, endMinute = Some 0,
          businessDays = [Some 0]\<rparr>"
    by code_simp
  have n: "no_weekday (CallingHoursValidator ?e)"
    unfolding c by (simp add: no_weekday_def)
  have a: "isWithinCallingHours (CallingHoursValidator ?e) 1705312800000 ?z = Inr False"
    using configuration_errors_surface_at_runtime [of _ "CallingHoursValidator ?e"
        1705312800000 ?z] n by blast
  have s: "\<not> skipped ?z (boundary ?z 1705312800000 19 0)"
    "\<not> skipped ?z (boundary ?z 1705312800000 9 0)"
    by (simp_all add: skipped_def)
  have h: "wall_clock 9 0 \<le> wall_clock 19 0"
    by (simp add: wall_clock_def)
  have b: "isWithinCallingHours ?w 1705312800000 ?z = Inr False"
    using configuration_errors_surface_at_runtime [of _ ?w 1705312800000 ?z 19 0 9 0] s h
    by simp
  from n a h b show ?thesis by blast
qed

end
